theory Spec2Isabelle
  imports Complex_Main
begin

section \<open>JavaScript values and platform built-ins\<close>

text \<open>
  Values that come out of \<^verbatim>\<open>JSON.parse\<close>. A JavaScript \<^verbatim>\<open>undefined\<close> (a missing
  property) is \<open>None\<close> of \<open>json option\<close>. An object is the list of its entries, each
  key once.
\<close>

datatype json =
    JNull
  | JBool bool
  | JNum rat
  | JStr string
  | JArr "json list"
  | JObj "(string \<times> json) list"

text \<open>
  The result of \<^verbatim>\<open>Number(v)\<close>: a (finite) number or \<^verbatim>\<open>NaN\<close>.
\<close>

datatype jsnum = Num rat | NaN

text \<open>
  \<^verbatim>\<open>a <= b\<close>, \<^verbatim>\<open>a > b\<close> and \<^verbatim>\<open>a >= b\<close> for an integer \<open>a\<close> and the result \<open>b\<close> of
  \<^verbatim>\<open>Number(v)\<close>: each comparison is false when \<open>b\<close> is \<^verbatim>\<open>NaN\<close>.
\<close>

definition js_le :: "int \<Rightarrow> jsnum \<Rightarrow> bool" where
  "js_le a b = (case b of Num q \<Rightarrow> of_int a \<le> q | NaN \<Rightarrow> False)"

definition js_gt :: "int \<Rightarrow> jsnum \<Rightarrow> bool" where
  "js_gt a b = (case b of Num q \<Rightarrow> of_int a > q | NaN \<Rightarrow> False)"

definition js_ge :: "int \<Rightarrow> jsnum \<Rightarrow> bool" where
  "js_ge a b = (case b of Num q \<Rightarrow> of_int a \<ge> q | NaN \<Rightarrow> False)"

text \<open>
  What the repository calls but does not define: number formatting, the WHATWG URL
  parser (\<open>None\<close> when \<^verbatim>\<open>new URL(s)\<close> throws, otherwise the \<^verbatim>\<open>pathname\<close>),
  \<^verbatim>\<open>JSON.parse\<close> (\<open>None\<close> when it throws), the conversion of a string to a number,
  and \<^verbatim>\<open>path.join\<close> and \<^verbatim>\<open>path.relative\<close> of \<^verbatim>\<open>node:path\<close>.
\<close>

record platform =
  Number_toString :: "rat \<Rightarrow> string"
  URL_pathname :: "string \<Rightarrow> string option"
  JSON_parse :: "string \<Rightarrow> json option"
  String_toNumber :: "string \<Rightarrow> jsnum"
  path_join :: "string \<Rightarrow> string \<Rightarrow> string"
  path_relative :: "string \<Rightarrow> string \<Rightarrow> string"

text \<open>A file read and parsed as JSON: absent, present with text that does not parse, or parsed.\<close>

datatype 'a jfile = Missing | Invalid | Holds 'a

datatype error =
    NoPackageJson
  | SyntaxError
  | TypeError
  | MissingInput
  | SchemaValidationFailed

fun truthy :: "json option \<Rightarrow> bool" where
  "truthy None = False"
| "truthy (Some JNull) = False"
| "truthy (Some (JBool b)) = b"
| "truthy (Some (JNum q)) = (q \<noteq> 0)"
| "truthy (Some (JStr s)) = (s \<noteq> [])"
| "truthy (Some (JArr xs)) = True"
| "truthy (Some (JObj kvs)) = True"

text \<open>
  \<^verbatim>\<open>v.k\<close> for a value \<open>v\<close> that is not \<^verbatim>\<open>null\<close>, at the property names this
  program reads: only an object has them.
\<close>

fun js_get :: "json \<Rightarrow> string \<Rightarrow> json option" where
  "js_get (JObj kvs) k = map_of kvs k"
| "js_get v k = None"

fun join :: "string \<Rightarrow> string list \<Rightarrow> string" where
  "join sep [] = []"
| "join sep [x] = x"
| "join sep (x # y # ys) = x @ sep @ join sep (y # ys)"

text \<open>\<^verbatim>\<open>String(v)\<close>.\<close>

fun String_js :: "platform \<Rightarrow> json \<Rightarrow> string" where
  "String_js P JNull = ''null''"
| "String_js P (JBool b) = (if b then ''true'' else ''false'')"
| "String_js P (JNum q) = Number_toString P q"
| "String_js P (JStr s) = s"
| "String_js P (JArr xs) =
     join '','' (map (\<lambda>x. if x = JNull then [] else String_js P x) xs)"
| "String_js P (JObj kvs) = ''[object Object]''"

section \<open>Strings\<close>

definition LF :: char where
  "LF = CHR 0x0A"

definition CR :: char where
  "CR = CHR 0x0D"

definition cons_hd :: "char \<Rightarrow> string list \<Rightarrow> string list" where
  "cons_hd c ls = (case ls of [] \<Rightarrow> [[c]] | l # rest \<Rightarrow> (c # l) # rest)"

text \<open>\<^verbatim>\<open>s.split(sep)\<close> for a one-character separator.\<close>

fun split_on :: "char \<Rightarrow> string \<Rightarrow> string list" where
  "split_on sep [] = [[]]"
| "split_on sep (c # cs) =
     (if c = sep then [] # split_on sep cs else cons_hd c (split_on sep cs))"

text \<open>\<^verbatim>\<open>s.split(/\r?\n/)\<close>: a separator is LF, or CR immediately followed by LF.\<close>

fun splitLines :: "string \<Rightarrow> string list" where
  "splitLines [] = [[]]"
| "splitLines [c] = (if c = LF then [[], []] else [[c]])"
| "splitLines (c # d # cs) =
     (if c = LF then [] # splitLines (d # cs)
      else if c = CR \<and> d = LF then [] # splitLines cs
      else cons_hd c (splitLines (d # cs)))"

definition is_alnum :: "char \<Rightarrow> bool" where
  "is_alnum c = (let n = (of_char c :: nat) in
     (48 \<le> n \<and> n \<le> 57) \<or> (65 \<le> n \<and> n \<le> 90) \<or> (97 \<le> n \<and> n \<le> 122))"

text \<open>\<^verbatim>\<open>s.replace(/[^a-zA-Z0-9]+/g, '_')\<close>: every run of other characters becomes one underscore.\<close>

function slug :: "string \<Rightarrow> string" where
  "slug [] = []"
| "slug (c # cs) =
     (if is_alnum c then c # slug cs
      else CHR ''_'' # slug (dropWhile (\<lambda>x. \<not> is_alnum x) cs))"
  by pat_completeness auto
termination
  by (relation "measure length") (auto simp: less_Suc_eq_le length_dropWhile_le)

definition lower_char :: "char \<Rightarrow> char" where
  "lower_char c = (let n = (of_char c :: nat) in
     if 65 \<le> n \<and> n \<le> 90 then char_of (n + 32) else c)"

definition toLowerCase :: "string \<Rightarrow> string" where
  "toLowerCase s = map lower_char s"

section \<open>exec.js\<close>

text \<open>What \<^verbatim>\<open>spawnSync\<close> hands back, with the two clock readings around it.\<close>

record spawn_result =
  sp_status :: "int option"
  sp_error_code :: "string option"
  sp_stdout :: "string option"
  sp_stderr :: "string option"
  sp_started_at :: string
  sp_duration_ms :: int

record CommandTrace =
  command :: string
  cwd :: string
  started_at :: string
  duration_ms :: int
  exit_code :: int
  timed_out :: bool
  stdout :: string
  stderr :: string

definition runCommand :: "(string \<Rightarrow> spawn_result) \<Rightarrow> string \<Rightarrow> string \<Rightarrow> CommandTrace" where
  "runCommand spawnSync cmd dir =
     (let result = spawnSync cmd in
      \<lparr> command = cmd,
        cwd = dir,
        started_at = sp_started_at result,
        duration_ms = sp_duration_ms result,
        exit_code = (case sp_status result of Some n \<Rightarrow> n | None \<Rightarrow> 1),
        timed_out = (sp_error_code result = Some ''ETIMEDOUT''),
        stdout = (case sp_stdout result of Some s \<Rightarrow> s | None \<Rightarrow> []),
        stderr = (case sp_stderr result of Some s \<Rightarrow> s | None \<Rightarrow> []) \<rparr>)"

section \<open>constants.js and config.js\<close>

definition QUICK_GATE_DIR :: string where
  "QUICK_GATE_DIR = ''.quick-gate''"

definition FAILURES_FILE :: string where
  "FAILURES_FILE = ''.quick-gate/failures.json''"

definition RUN_METADATA_FILE :: string where
  "RUN_METADATA_FILE = ''.quick-gate/run-metadata.json''"

definition AGENT_BRIEF_MD_FILE :: string where
  "AGENT_BRIEF_MD_FILE = ''.quick-gate/agent-brief.md''"

definition AGENT_BRIEF_JSON_FILE :: string where
  "AGENT_BRIEF_JSON_FILE = ''.quick-gate/agent-brief.json''"

text \<open>
  The policy object. \<^verbatim>\<open>DEFAULT_POLICY\<close> holds numbers; the policy of a loaded
  configuration holds at each field whatever JSON value the configuration file gives there,
  since \<^verbatim>\<open>loadConfig\<close> checks none of them.
\<close>

record policy =
  maxAttempts :: json
  maxPatchLines :: json
  abortOnNoImprovement :: json
  timeCapMs :: json

definition DEFAULT_POLICY :: policy where
  "DEFAULT_POLICY =
     \<lparr> maxAttempts = JNum 3,
       maxPatchLines = JNum 150,
       abortOnNoImprovement = JNum 2,
       timeCapMs = JNum (20 * 60 * 1000) \<rparr>"

text \<open>
  The policy object of the configuration file: a field it leaves out is \<^verbatim>\<open>undefined\<close>
  (\<open>None\<close>), and a field it has holds any JSON value.
\<close>

record user_policy =
  up_maxAttempts :: "json option"
  up_maxPatchLines :: "json option"
  up_abortOnNoImprovement :: "json option"
  up_timeCapMs :: "json option"

text \<open>The content of \<^verbatim>\<open>quick-gate.config.json\<close>, every part optional.\<close>

record user_config =
  uc_policy :: "user_policy option"
  uc_commands :: "(string \<times> string) list option"
  uc_thresholds :: "(string \<times> rat) list option"

record config =
  cfg_policy :: policy
  cfg_commands :: "(string \<times> string) list"
  cfg_thresholds :: "(string \<times> rat) list"
  cfg_source :: string

text \<open>\<^verbatim>\<open>{ ...a, ...b }\<close> read at one key: the entry of \<open>b\<close> when it has one.\<close>

definition spread :: "'a \<Rightarrow> 'a option \<Rightarrow> 'a" where
  "spread a b = (case b of Some v \<Rightarrow> v | None \<Rightarrow> a)"

definition spread_policy :: "policy \<Rightarrow> user_policy option \<Rightarrow> policy" where
  "spread_policy a b =
     (case b of
        None \<Rightarrow> a
      | Some u \<Rightarrow>
          \<lparr> maxAttempts = spread (maxAttempts a) (up_maxAttempts u),
            maxPatchLines = spread (maxPatchLines a) (up_maxPatchLines u),
            abortOnNoImprovement = spread (abortOnNoImprovement a) (up_abortOnNoImprovement u),
            timeCapMs = spread (timeCapMs a) (up_timeCapMs u) \<rparr>)"

definition default_thresholds :: "(string \<times> rat) list" where
  "default_thresholds =
     [(''performance'', 8 / 10), (''accessibility'', 8 / 10),
      (''best-practices'', 8 / 10), (''seo'', 8 / 10)]"

text \<open>
  An object built by spreading \<open>a\<close> and then \<open>b\<close>, as an association list that
  \<open>map_of\<close> reads: the entries of \<open>b\<close> come first, so they win.
\<close>

definition spread_entries :: "(string \<times> 'a) list \<Rightarrow> (string \<times> 'a) list \<Rightarrow> (string \<times> 'a) list" where
  "spread_entries a b = b @ a"

definition loadConfig :: "string \<Rightarrow> user_config jfile \<Rightarrow> error + config" where
  "loadConfig configPath cf =
     (case cf of
        Missing \<Rightarrow>
          Inr \<lparr> cfg_policy = DEFAULT_POLICY, cfg_commands = [],
                cfg_thresholds = default_thresholds, cfg_source = ''defaults'' \<rparr>
      | Invalid \<Rightarrow> Inl SyntaxError
      | Holds userConfig \<Rightarrow>
          Inr \<lparr> cfg_policy = spread_policy DEFAULT_POLICY (uc_policy userConfig),
                cfg_commands = (case uc_commands userConfig of Some c \<Rightarrow> c | None \<Rightarrow> []),
                cfg_thresholds =
                  spread_entries default_thresholds
                    (case uc_thresholds userConfig of Some t \<Rightarrow> t | None \<Rightarrow> []),
                cfg_source = configPath \<rparr>)"

section \<open>gates.js\<close>

datatype raw_evidence =
    NoRaw
  | RawLighthouse "json option" "json option" string json
  | RawExit string string string

text \<open>
  A finding. \<open>RawLighthouse level auditProperty threshold_source operator\<close> and
  \<open>RawExit command stderr_excerpt stdout_excerpt\<close> are the two shapes of \<^verbatim>\<open>raw\<close>.
\<close>

record finding =
  f_id :: string
  f_gate :: string
  f_severity :: string
  f_summary :: json
  f_files :: "string list option"
  f_route :: "string option"
  f_metric :: "string option"
  f_actual :: json
  f_threshold :: json
  f_status :: string
  f_raw :: raw_evidence

record GateResult =
  g_name :: string
  g_status :: string
  g_duration_ms :: int

text \<open>
  What one run of the gates reads from outside: \<^verbatim>\<open>package.json\<close>, the result of spawning
  a gate's command (by gate name and command line), the Lighthouse artifact
  \<^verbatim>\<open>.lighthouseci/assertion-results.json\<close>, and \<^verbatim>\<open>Date.now()\<close> when a gate's exit-code
  finding is made.
\<close>

record gate_env =
  package_json :: "json jfile"
  spawnSync :: "string \<Rightarrow> string \<Rightarrow> spawn_result"
  assertion_results :: "json jfile"
  date_now :: "string \<Rightarrow> int"

definition packageScripts :: "json jfile \<Rightarrow> error + json" where
  "packageScripts pj =
     (case pj of
        Missing \<Rightarrow> Inl NoPackageJson
      | Invalid \<Rightarrow> Inl SyntaxError
      | Holds pkg \<Rightarrow>
          (if pkg = JNull then Inl TypeError
           else if truthy (js_get pkg ''scripts'') then Inr (the (js_get pkg ''scripts''))
           else Inr (JObj [])))"

definition resolveGateCommand :: "string \<Rightarrow> json \<Rightarrow> (string \<times> string) list \<Rightarrow> string option" where
  "resolveGateCommand gate scripts configCommands =
     (if truthy (map_option JStr (map_of configCommands gate)) then map_of configCommands gate
      else if gate = ''typecheck'' then
        (if truthy (js_get scripts ''typecheck'') then Some ''npm run typecheck''
         else Some ''npx tsc --noEmit'')
      else if truthy (js_get scripts gate) then Some (''npm run '' @ gate)
      else if gate = ''lighthouse'' then
        (if truthy (js_get scripts ''lighthouse'') then Some ''npm run lighthouse''
         else if truthy (js_get scripts ''ci:lighthouse'') then Some ''npm run ci:lighthouse''
         else if truthy (js_get scripts ''lhci'') then Some ''npm run lhci''
         else Some ''npx lhci autorun --upload.target=filesystem --upload.outputDir=.quick-gate/lhci'')
      else None)"

definition routePath :: "platform \<Rightarrow> json option \<Rightarrow> string" where
  "routePath P rawUrl =
     (if \<not> truthy rawUrl then ''/''
      else (case URL_pathname P (String_js P (the rawUrl)) of
              Some pathname \<Rightarrow> (if pathname = [] then ''/'' else pathname)
            | None \<Rightarrow> String_js P (the rawUrl)))"

definition is_number_or_string :: "json option \<Rightarrow> bool" where
  "is_number_or_string v = (case v of Some (JNum q) \<Rightarrow> True | Some (JStr s) \<Rightarrow> True | _ \<Rightarrow> False)"

text \<open>\<^verbatim>\<open>String(row.assertion || d)\<close>.\<close>

definition string_or :: "platform \<Rightarrow> json option \<Rightarrow> string \<Rightarrow> string" where
  "string_or P v d = (if truthy v then String_js P (the v) else d)"

text \<open>
  \<^verbatim>\<open>thresholdForAssertion\<close>, with \<^verbatim>\<open>metricThresholds[k]\<close> read at the keys the
  thresholds object has itself: the names every object inherits (\<^verbatim>\<open>constructor\<close>,
  \<^verbatim>\<open>toString\<close> and the like), at which the source finds a function instead of
  \<^verbatim>\<open>undefined\<close>, are taken not to occur as assertion names.
\<close>

definition thresholdForAssertion :: "platform \<Rightarrow> (string \<times> rat) list \<Rightarrow> json \<Rightarrow> json \<times> string" where
  "thresholdForAssertion P metricThresholds row =
     (if is_number_or_string (js_get row ''expected'') then
        (the (js_get row ''expected''), ''assertion_expected'')
      else
        (let assertion = string_or P (js_get row ''assertion'') [];
             parts = split_on CHR '':'' assertion
         in if length parts = 2 \<and> parts ! 0 = ''categories''
               \<and> map_of metricThresholds (parts ! 1) \<noteq> None then
              (JNum (the (map_of metricThresholds (parts ! 1))), ''config_category:'' @ parts ! 1)
            else if map_of metricThresholds assertion \<noteq> None then
              (JNum (the (map_of metricThresholds assertion)), ''config_metric:'' @ assertion)
            else (JStr ''n/a'', ''unknown'')))"

text \<open>The finding pushed for one row that has not passed.\<close>

definition lighthouseFinding :: "platform \<Rightarrow> (string \<times> rat) list \<Rightarrow> json \<Rightarrow> finding" where
  "lighthouseFinding P metricThresholds row =
     (let route = routePath P (js_get row ''url'');
          metric = string_or P (js_get row ''assertion'') ''lighthouse_assertion'';
          threshold = thresholdForAssertion P metricThresholds row;
          findingId = toLowerCase (''lh_'' @ slug route @ ''_'' @ slug metric);
          actual = (case js_get row ''numericValue'' of
                      Some (JNum q) \<Rightarrow> JNum q
                    | _ \<Rightarrow> (case js_get row ''value'' of
                              None \<Rightarrow> JStr ''n/a''
                            | Some JNull \<Rightarrow> JStr ''n/a''
                            | Some v \<Rightarrow> JStr (String_js P v)))
      in \<lparr> f_id = findingId,
           f_gate = ''lighthouse'',
           f_severity = ''high'',
           f_summary = (if truthy (js_get row ''message'') then the (js_get row ''message'')
                        else JStr (''Lighthouse assertion failed: '' @ metric)),
           f_files = None,
           f_route = Some route,
           f_metric = Some metric,
           f_actual = actual,
           f_threshold = fst threshold,
           f_status = ''fail'',
           f_raw = RawLighthouse (js_get row ''level'') (js_get row ''auditProperty'') (snd threshold)
                     (case js_get row ''operator'' of None \<Rightarrow> JNull | Some v \<Rightarrow> v) \<rparr>)"

text \<open>
  The rows of \<^verbatim>\<open>for (const row of data)\<close>: an array gives its elements, a string its
  characters, and nothing else that \<^verbatim>\<open>JSON.parse\<close> returns can be iterated.
\<close>

definition iterate :: "json \<Rightarrow> json list option" where
  "iterate data =
     (case data of JArr rows \<Rightarrow> Some rows | JStr s \<Rightarrow> Some (map (\<lambda>c. JStr [c]) s) | _ \<Rightarrow> None)"

fun lighthouseRows :: "platform \<Rightarrow> (string \<times> rat) list \<Rightarrow> json list \<Rightarrow> finding list \<Rightarrow> error + finding list" where
  "lighthouseRows P metricThresholds [] findings = Inr findings"
| "lighthouseRows P metricThresholds (row # rows) findings =
     (if row = JNull then Inl TypeError
      else if truthy (js_get row ''passed'') then lighthouseRows P metricThresholds rows findings
      else lighthouseRows P metricThresholds rows
             (findings @ [lighthouseFinding P metricThresholds row]))"

definition parseLighthouseFindings :: "platform \<Rightarrow> json jfile \<Rightarrow> (string \<times> rat) list \<Rightarrow> error + finding list" where
  "parseLighthouseFindings P artifact thresholds =
     (case artifact of
        Missing \<Rightarrow> Inr []
      | Invalid \<Rightarrow> Inl SyntaxError
      | Holds data \<Rightarrow>
          (case iterate data of
             None \<Rightarrow> Inl TypeError
           | Some rows \<Rightarrow> lighthouseRows P thresholds rows []))"

definition findingForExitCode :: "platform \<Rightarrow> int \<Rightarrow> string \<Rightarrow> CommandTrace \<Rightarrow> finding" where
  "findingForExitCode P now gate result =
     \<lparr> f_id = gate @ ''_exit_'' @ Number_toString P (of_int now),
       f_gate = gate,
       f_severity = (if gate = ''build'' then ''critical'' else ''high''),
       f_summary = JStr (gate @ '' command failed with exit code ''
                          @ Number_toString P (of_int (exit_code result))),
       f_files = None,
       f_route = None,
       f_metric = None,
       f_actual = JNum (of_int (exit_code result)),
       f_threshold = JNum 0,
       f_status = ''fail'',
       f_raw = RawExit (command result)
                 (join [LF] (take 30 (split_on LF (stderr result))))
                 (join [LF] (take 30 (split_on LF (stdout result)))) \<rparr>"

record gate_run =
  gates :: "GateResult list"
  findings :: "finding list"
  traces :: "CommandTrace list"

definition gatePlan :: "string \<Rightarrow> (string \<times> bool) list" where
  "gatePlan mode =
     [(''lint'', True), (''typecheck'', True), (''build'', mode = ''full''), (''lighthouse'', True)]"

text \<open>The body of the loop over the gate plan, with the three arrays it pushes to.\<close>

fun gateLoop :: "platform \<Rightarrow> gate_env \<Rightarrow> string \<Rightarrow> config \<Rightarrow> string list \<Rightarrow> json
    \<Rightarrow> (string \<times> bool) list \<Rightarrow> gate_run \<Rightarrow> error + gate_run" where
  "gateLoop P env dir cfg changedFiles scripts [] acc = Inr acc"
| "gateLoop P env dir cfg changedFiles scripts ((name, enabled) # plan) acc =
     (if \<not> enabled then
        gateLoop P env dir cfg changedFiles scripts plan
          (acc\<lparr> gates := gates acc @ [\<lparr> g_name = name, g_status = ''skipped'', g_duration_ms = 0 \<rparr>] \<rparr>)
      else
        (case resolveGateCommand name scripts (cfg_commands cfg) of
           None \<Rightarrow>
             gateLoop P env dir cfg changedFiles scripts plan
               (acc\<lparr> gates := gates acc @ [\<lparr> g_name = name, g_status = ''fail'', g_duration_ms = 0 \<rparr>],
                     findings := findings acc @
                       [\<lparr> f_id = name @ ''_missing_command'',
                          f_gate = name,
                          f_severity = ''high'',
                          f_summary = JStr (''No command configured for gate: '' @ name),
                          f_files = Some changedFiles,
                          f_route = None,
                          f_metric = None,
                          f_actual = JStr ''missing'',
                          f_threshold = JStr ''configured_command_required'',
                          f_status = ''fail'',
                          f_raw = NoRaw \<rparr>] \<rparr>)
         | Some cmd \<Rightarrow>
             (let result = runCommand (spawnSync env name) cmd dir;
                  status = (if exit_code result = 0 then ''pass'' else ''fail'');
                  acc1 = acc\<lparr> traces := traces acc @ [result],
                              gates := gates acc @
                                [\<lparr> g_name = name, g_status = status,
                                   g_duration_ms = duration_ms result \<rparr>] \<rparr>
              in if status = ''fail'' then
                   (if name = ''lighthouse'' then
                      (case parseLighthouseFindings P (assertion_results env) (cfg_thresholds cfg) of
                         Inl e \<Rightarrow> Inl e
                       | Inr lighthouseFindings \<Rightarrow>
                           (if length lighthouseFindings > 0 then
                              gateLoop P env dir cfg changedFiles scripts plan
                                (acc1\<lparr> findings := findings acc1 @ lighthouseFindings \<rparr>)
                            else
                              gateLoop P env dir cfg changedFiles scripts plan
                                (acc1\<lparr> findings := findings acc1 @
                                   [findingForExitCode P (date_now env name) name result] \<rparr>)))
                    else
                      gateLoop P env dir cfg changedFiles scripts plan
                        (acc1\<lparr> findings := findings acc1 @
                           [findingForExitCode P (date_now env name) name result] \<rparr>))
                 else gateLoop P env dir cfg changedFiles scripts plan acc1)))"

definition runDeterministicGates :: "platform \<Rightarrow> gate_env \<Rightarrow> string \<Rightarrow> string \<Rightarrow> config \<Rightarrow> string list
    \<Rightarrow> error + gate_run" where
  "runDeterministicGates P env mode dir cfg changedFiles =
     (case packageScripts (package_json env) of
        Inl e \<Rightarrow> Inl e
      | Inr scripts \<Rightarrow>
          gateLoop P env dir cfg changedFiles scripts (gatePlan mode)
            \<lparr> gates = [], findings = [], traces = [] \<rparr>)"

section \<open>The artifacts under .quick-gate\<close>

record inferred_hint =
  ih_finding_id :: string
  ih_hint :: string
  ih_confidence :: string

record FailuresReport =
  fr_version :: string
  fr_run_id :: string
  fr_mode :: string
  fr_status :: string
  fr_timestamp :: string
  fr_repo :: "string option"
  fr_branch :: "string option"
  fr_changed_files :: "string list option"
  fr_gates :: "GateResult list"
  fr_findings :: "finding list"
  fr_inferred_hints :: "inferred_hint list"

record RunMetadata =
  rm_run_id :: string
  rm_mode :: string
  rm_started_at :: string
  rm_completed_at :: string
  rm_duration_ms :: int
  rm_config_source :: string
  rm_command_traces :: "CommandTrace list"

record priority_action =
  pa_finding_id :: string
  pa_action :: string
  pa_scope :: string
  pa_target_files :: "string list"
  pa_rationale :: string

record AgentBrief =
  ab_run_id :: string
  ab_mode :: string
  ab_status :: string
  ab_summary :: string
  ab_priority_actions :: "priority_action list"
  ab_max_attempts :: json
  ab_max_patch_lines :: json
  ab_abort_on_no_improvement :: json
  ab_escalation_required :: bool

record edit =
  e_file :: string
  start_line :: int
  end_line :: int
  replacement :: string

record EditPlan =
  p_summary :: string
  edits :: "edit list"

text \<open>
  The result object of the hint adapter: rejected with the model and the reason, or
  accepted with the model and the hints.
\<close>

datatype hint_result =
    HintRejected string string
  | HintAccepted string "json list"

text \<open>
  The result object of the patch adapter, one constructor for each \<^verbatim>\<open>return\<close> of
  \<^verbatim>\<open>runPatchModel\<close>, in the order of the source; the first argument is the model.
  \<open>PatchAccepted model score patch_lines touched_files summary proposal\<close> is the only
  one with \<^verbatim>\<open>accepted: true\<close>.
\<close>

datatype patch_result =
    PatchModelIsHintOnly string
  | ModelCallFailed string string
  | InvalidEditPlanJson string string
  | FileOutOfScope string "string list" EditPlan
  | PatchBudgetExceeded string int jsnum
  | DiffScoreTooLow string rat "string list" EditPlan
  | ApplyPlanFailed string string EditPlan
  | PatchAccepted string rat int "string list" string EditPlan


fun was_attempted :: "patch_result \<Rightarrow> bool" where
  "was_attempted (PatchModelIsHintOnly m) = False"
| "was_attempted r = True"


text \<open>
  One entry of an attempt's \<^verbatim>\<open>actions\<close>, by its \<^verbatim>\<open>strategy\<close>:
  \<open>LintProblemAutofix accepted command exit_code files\<close> is the deterministic pre-fix,
  \<open>DeterministicPrefixRerun status findings_after_rerun\<close> the rerun after it.
\<close>

datatype action =
    LintProblemAutofix bool string int "string list"
  | DeterministicPrefixRerun string nat
  | DeterministicOnlyMode
  | RequiresManualOrModelPatch
  | SkipModelPatch "string list"
  | OllamaHint hint_result
  | OllamaPatchPlan patch_result

record attempt_record =
  a_attempt :: int
  a_patch_lines :: int
  a_before_findings :: nat
  a_after_findings :: nat
  a_improved :: bool
  a_worsened :: bool
  a_status :: string
  a_actions :: "action list"

text \<open>
  The \<^verbatim>\<open>evidence\<close> of an escalation: none (time cap),
  \<open>BudgetEvidence attempt patch_lines max_patch_lines pre_files post_files\<close>,
  \<open>AttemptsEvidence attempts latest_failures_path latest_metadata_path\<close>, or
  \<open>LatestFailures latest_failures_path\<close> (attempts exhausted).
\<close>

datatype evidence =
    NoEvidence
  | BudgetEvidence int int jsnum nat nat
  | AttemptsEvidence "attempt_record list" string string
  | LatestFailures string

text \<open>
  What \<^verbatim>\<open>executeRepair\<close> returns and writes: \<open>RepairReport attempts\<close> is
  \<^verbatim>\<open>{ status: 'pass', attempts }\<close>, and \<open>Escalation reason_code message evidence\<close> is
  \<^verbatim>\<open>{ status: 'escalated', reason_code, message, evidence }\<close>.
\<close>

datatype repair_outcome =
    RepairReport "attempt_record list"
  | Escalation string string evidence

fun outcome_status :: "repair_outcome \<Rightarrow> string" where
  "outcome_status (RepairReport attempts) = ''pass''"
| "outcome_status (Escalation code msg ev) = ''escalated''"

datatype artifact =
    FailuresJson FailuresReport
  | RunMetadataJson RunMetadata
  | AgentBriefJson AgentBrief
  | AgentBriefMd FailuresReport AgentBrief
  | RepairJson repair_outcome
  | OtherJson json

text \<open>The files under the working directory that hold JSON or the brief, by relative path.\<close>

type_synonym store = "string \<Rightarrow> artifact option"

section \<open>run-command.js\<close>

definition is_space :: "char \<Rightarrow> bool" where
  "is_space c = (c = CHR '' '' \<or> c = CHR 0x09 \<or> c = LF \<or> c = CHR 0x0B \<or> c = CHR 0x0C \<or> c = CR)"

definition trim :: "string \<Rightarrow> string" where
  "trim s = rev (dropWhile is_space (rev (dropWhile is_space s)))"

text \<open>
  What one \<^verbatim>\<open>executeRun\<close> reads from outside: the run id it draws, the clock, the
  configuration file, the gates' environment, whether git is installed and what the two
  git commands return, and the verdict of the failures schema on a payload.
\<close>

record run_env =
  re_run_id :: string
  re_started_at :: string
  re_completed_at :: string
  re_duration_ms :: int
  re_timestamp :: string
  re_config_file :: "user_config jfile"
  re_gate_env :: gate_env
  re_hasGit :: bool
  re_git :: "string \<Rightarrow> spawn_result"
  re_failures_schema :: "FailuresReport \<Rightarrow> bool"

definition gitInfo :: "run_env \<Rightarrow> string \<Rightarrow> string option \<times> string option" where
  "gitInfo env dir =
     (if \<not> re_hasGit env then (None, None)
      else
        (let repoResult = runCommand (re_git env) ''git config --get remote.origin.url'' dir;
             branchResult = runCommand (re_git env) ''git rev-parse --abbrev-ref HEAD'' dir
         in (if exit_code repoResult = 0 then Some (trim (stdout repoResult)) else None,
             if exit_code branchResult = 0 then Some (trim (stdout branchResult)) else None)))"

record run_return =
  rr_status :: string
  rr_failuresPath :: string
  rr_metadataPath :: string
  rr_runId :: string

definition failuresPayload :: "run_env \<Rightarrow> string \<Rightarrow> string list \<Rightarrow> string \<Rightarrow> gate_run \<Rightarrow> FailuresReport" where
  "failuresPayload env mode changedFiles dir gateResult =
     (let status = (if length (findings gateResult) > 0 then ''fail'' else ''pass'');
          git = gitInfo env dir
      in \<lparr> fr_version = ''1.0.0'',
           fr_run_id = re_run_id env,
           fr_mode = mode,
           fr_status = status,
           fr_timestamp = re_timestamp env,
           fr_repo = fst git,
           fr_branch = snd git,
           fr_changed_files = Some changedFiles,
           fr_gates = gates gateResult,
           fr_findings = findings gateResult,
           fr_inferred_hints =
             map (\<lambda>f. \<lparr> ih_finding_id = f_id f,
                          ih_hint = ''Start with the deterministic gate failure in '' @ f_gate f
                            @ '' and inspect command output in run-metadata traces.'',
                          ih_confidence = ''low'' \<rparr>)
                 (findings gateResult) \<rparr>)"

text \<open>
  \<^verbatim>\<open>executeRun\<close>: the value returned and the store after the two writes, or the error
  thrown; every \<^verbatim>\<open>throw\<close> comes before the first write.
\<close>

definition executeRun :: "platform \<Rightarrow> run_env \<Rightarrow> string \<Rightarrow> string list \<Rightarrow> string \<Rightarrow> store
    \<Rightarrow> error + (run_return \<times> store)" where
  "executeRun P env mode changedFiles dir st =
     (case loadConfig (path_join P dir ''quick-gate.config.json'') (re_config_file env) of
        Inl e \<Rightarrow> Inl e
      | Inr cfg \<Rightarrow>
          (case runDeterministicGates P (re_gate_env env) mode dir cfg changedFiles of
             Inl e \<Rightarrow> Inl e
           | Inr gateResult \<Rightarrow>
               (let payload = failuresPayload env mode changedFiles dir gateResult;
                    metadataPayload =
                      \<lparr> rm_run_id = re_run_id env,
                        rm_mode = mode,
                        rm_started_at = re_started_at env,
                        rm_completed_at = re_completed_at env,
                        rm_duration_ms = re_duration_ms env,
                        rm_config_source = cfg_source cfg,
                        rm_command_traces = traces gateResult \<rparr>
                in if \<not> re_failures_schema env payload then Inl SchemaValidationFailed
                   else Inr (\<lparr> rr_status = fr_status payload,
                               rr_failuresPath = path_join P dir FAILURES_FILE,
                               rr_metadataPath = path_join P dir RUN_METADATA_FILE,
                               rr_runId = re_run_id env \<rparr>,
                             st(FAILURES_FILE \<mapsto> FailuresJson payload,
                                RUN_METADATA_FILE \<mapsto> RunMetadataJson metadataPayload)))))"

section \<open>model-adapter.js\<close>

definition safeSlice :: "string \<Rightarrow> nat \<Rightarrow> string" where
  "safeSlice text n = take n text"

fun indexOf :: "char \<Rightarrow> string \<Rightarrow> nat option" where
  "indexOf c [] = None"
| "indexOf c (x # xs) = (if x = c then Some 0 else map_option Suc (indexOf c xs))"

definition lastIndexOf :: "char \<Rightarrow> string \<Rightarrow> nat option" where
  "lastIndexOf c s = map_option (\<lambda>i. length s - 1 - i) (indexOf c (rev s))"

text \<open>
  \<^verbatim>\<open>parseJsonObject\<close>: what \<^verbatim>\<open>JSON.parse\<close> gives for the trimmed text, or for the
  part from its first \<^verbatim>\<open>{\<close> to its last \<^verbatim>\<open>}\<close>; \<open>None\<close> is the \<^verbatim>\<open>null\<close> returned
  when nothing parses.
\<close>

definition parseJsonObject :: "platform \<Rightarrow> string \<Rightarrow> json option" where
  "parseJsonObject P text =
     (let raw = trim text in
      if raw = [] then None
      else (case JSON_parse P raw of
              Some v \<Rightarrow> Some v
            | None \<Rightarrow>
                (case (indexOf CHR ''{'' raw, lastIndexOf CHR ''}'' raw) of
                   (Some start, Some stop) \<Rightarrow>
                     (if stop \<le> start then None
                      else JSON_parse P (take (stop + 1 - start) (drop start raw)))
                 | _ \<Rightarrow> None)))"

text \<open>The files that scope an attempt, in insertion order and without repetition.\<close>

definition pushFile :: "string list \<Rightarrow> string \<Rightarrow> string list" where
  "pushFile acc f = (if f = [] \<or> f \<in> set acc then acc else acc @ [f])"

definition finding_files :: "FailuresReport \<Rightarrow> string list" where
  "finding_files failures =
     concat (map (\<lambda>f. case f_files f of Some fs \<Rightarrow> fs | None \<Rightarrow> []) (fr_findings failures))"

definition preferredFiles :: "FailuresReport \<Rightarrow> string list" where
  "preferredFiles failures =
     foldl pushFile
       (foldl pushFile [] (case fr_changed_files failures of Some fs \<Rightarrow> fs | None \<Rightarrow> []))
       (finding_files failures)"

text \<open>
  The \<^verbatim>\<open>allowed_files\<close> of \<^verbatim>\<open>gatherFailureContext\<close>. Its two other fields, the findings
  and the file snippets, only enter the prompt sent to the model.
\<close>

definition allowed_files :: "FailuresReport \<Rightarrow> string list" where
  "allowed_files failures = take 12 (preferredFiles failures)"

text \<open>What \<^verbatim>\<open>callOllama\<close> returns: not ok with a reason, or ok with the output.\<close>

datatype response = Failed string | Output string

text \<open>
  \<^verbatim>\<open>callOllama\<close>, given the mock variable of its purpose and the trace of the shell
  command that pipes the prompt to \<^verbatim>\<open>ollama run\<close>.
\<close>

definition callOllama :: "string \<Rightarrow> string option \<Rightarrow> CommandTrace \<Rightarrow> response" where
  "callOllama model mockEnv result =
     (if model = [] then Failed ''missing_model''
      else if truthy (map_option JStr mockEnv) then Output (the mockEnv)
      else if exit_code result \<noteq> 0 then
        Failed (if timed_out result then ''model_command_timeout'' else ''model_command_failed'')
      else Output (stdout result))"

definition countLines :: "string \<Rightarrow> int" where
  "countLines s = int (length (splitLines s))"

text \<open>\<^verbatim>\<open>touched.add(f)\<close> on a set kept in insertion order.\<close>

definition add_unique :: "string list \<Rightarrow> string \<Rightarrow> string list" where
  "add_unique acc f = (if f \<in> set acc then acc else acc @ [f])"

definition predictedLines :: "edit list \<Rightarrow> int" where
  "predictedLines es =
     sum_list (map (\<lambda>e. max 0 (end_line e - start_line e + 1) + countLines (replacement e)) es)"

text \<open>
  \<^verbatim>\<open>Number(x.toFixed(2))\<close>, read in exact arithmetic: the nearest hundredth, halves up.
  The source rounds the double nearest to \<open>x\<close>, which can fall on the other side of a
  tie (0.475 gives 0.47); the two agree at 0, 0.3, 0.7 and 1, the scores of a plan whose
  files are all in scope.
\<close>

definition toFixed2 :: "rat \<Rightarrow> rat" where
  "toFixed2 x = of_int \<lfloor>x * 100 + 1 / 2\<rfloor> / 100"

record scoring =
  score :: rat
  sc_predictedLines :: int
  touchedFiles :: "string list"

definition scoreEditPlan :: "edit list \<Rightarrow> FailuresReport \<Rightarrow> jsnum \<Rightarrow> scoring" where
  "scoreEditPlan es failures maxLines =
     (let changedFiles = (case fr_changed_files failures of Some fs \<Rightarrow> fs | None \<Rightarrow> []);
          findingFiles = finding_files failures;
          touched = foldl add_unique [] (map e_file es);
          predicted = predictedLines es;
          overlap = length (filter (\<lambda>f. f \<in> set changedFiles \<or> f \<in> set findingFiles) touched);
          overlapRatio = (if length touched = 0 then 0 else of_nat overlap / of_nat (length touched));
          lineScore = (if js_le predicted maxLines then 1 else 0)
      in \<lparr> score = toFixed2 (overlapRatio * (7 / 10) + lineScore * (3 / 10)),
           sc_predictedLines = predicted,
           touchedFiles = touched \<rparr>)"

text \<open>\<^verbatim>\<open>Number(v)\<close> of a value read from parsed JSON.\<close>

definition Number_js :: "platform \<Rightarrow> json option \<Rightarrow> jsnum" where
  "Number_js P v =
     (case v of
        None \<Rightarrow> NaN
      | Some JNull \<Rightarrow> Num 0
      | Some (JBool b) \<Rightarrow> Num (if b then 1 else 0)
      | Some (JNum q) \<Rightarrow> Num q
      | Some (JStr s) \<Rightarrow> String_toNumber P s
      | Some w \<Rightarrow> String_toNumber P (String_js P w))"

definition isInteger :: "jsnum \<Rightarrow> bool" where
  "isInteger n = (case n of Num q \<Rightarrow> of_int \<lfloor>q\<rfloor> = q | NaN \<Rightarrow> False)"

definition integer_of :: "jsnum \<Rightarrow> int" where
  "integer_of n = (case n of Num q \<Rightarrow> \<lfloor>q\<rfloor> | NaN \<Rightarrow> 0)"

text \<open>One element of \<^verbatim>\<open>payload.edits\<close> through the \<^verbatim>\<open>map\<close> and the \<^verbatim>\<open>filter\<close>: kept or dropped.\<close>

definition normalizeEdit :: "platform \<Rightarrow> json \<Rightarrow> edit list" where
  "normalizeEdit P e =
     (let f = string_or P (js_get e ''file'') [];
          s = Number_js P (js_get e ''start_line'');
          t = Number_js P (js_get e ''end_line'');
          r = (case js_get e ''replacement'' of
                 None \<Rightarrow> [] | Some JNull \<Rightarrow> [] | Some v \<Rightarrow> String_js P v)
      in if f \<noteq> [] \<and> isInteger s \<and> isInteger t
         then [\<lparr> e_file = f, start_line = integer_of s, end_line = integer_of t, replacement = r \<rparr>]
         else [])"

text \<open>
  \<^verbatim>\<open>normalizeEditPlan\<close>: \<open>Inr None\<close> is its \<^verbatim>\<open>null\<close>; reading \<^verbatim>\<open>e.file\<close> of an element
  that is \<^verbatim>\<open>null\<close> throws.
\<close>

definition normalizeEditPlan :: "platform \<Rightarrow> json option \<Rightarrow> error + EditPlan option" where
  "normalizeEditPlan P payload =
     (case payload of
        Some (JObj kvs) \<Rightarrow>
          (case map_of kvs ''edits'' of
             Some (JArr es) \<Rightarrow>
               (if JNull \<in> set es then Inl TypeError
                else (let normalized = concat (map (normalizeEdit P) es)
                      in if length normalized = 0 then Inr None
                         else Inr (Some \<lparr> p_summary = string_or P (map_of kvs ''summary'') [],
                                          edits = normalized \<rparr>)))
           | _ \<Rightarrow> Inr None)
      | _ \<Rightarrow> Inr None)"

definition isAbsolute :: "string \<Rightarrow> bool" where
  "isAbsolute s = (case s of [] \<Rightarrow> False | c # cs \<Rightarrow> c = CHR ''/'')"

definition startsWith :: "string \<Rightarrow> string \<Rightarrow> bool" where
  "startsWith s pre = (take (length pre) s = pre)"

fun sanitizeEdits :: "platform \<Rightarrow> string \<Rightarrow> edit list \<Rightarrow> edit list option" where
  "sanitizeEdits P dir [] = Some []"
| "sanitizeEdits P dir (e # es) =
     (if isAbsolute (e_file e) then
        (if startsWith (e_file e) (dir @ ''/'') then
           map_option ((#) (e\<lparr> e_file := path_relative P dir (e_file e) \<rparr>)) (sanitizeEdits P dir es)
         else None)
      else map_option ((#) e) (sanitizeEdits P dir es))"

definition sanitizePlanPaths :: "platform \<Rightarrow> string \<Rightarrow> EditPlan \<Rightarrow> EditPlan option" where
  "sanitizePlanPaths P dir pl =
     map_option (\<lambda>es. pl\<lparr> edits := es \<rparr>) (sanitizeEdits P dir (edits pl))"

text \<open>The source files of the working tree, by the path \<^verbatim>\<open>path.join(cwd, file)\<close>.\<close>

type_synonym workspace = "string \<Rightarrow> string option"

datatype apply_result = ApplyFailed string | Applied "string list"

text \<open>
  The loop of \<^verbatim>\<open>applyEditPlan\<close>. An edit that fails returns at once, and the files
  written for the edits before it stay written.
\<close>

fun applyEdits :: "platform \<Rightarrow> string \<Rightarrow> edit list \<Rightarrow> string list \<Rightarrow> workspace
    \<Rightarrow> apply_result \<times> workspace" where
  "applyEdits P dir [] touched ws = (Applied touched, ws)"
| "applyEdits P dir (e # es) touched ws =
     (let filePath = path_join P dir (e_file e) in
      case ws filePath of
        None \<Rightarrow> (ApplyFailed (''missing_file:'' @ e_file e), ws)
      | Some content \<Rightarrow>
          (let lines = splitLines content;
               startIndex = start_line e - 1;
               endIndexExclusive = end_line e
           in if startIndex < 0 \<or> endIndexExclusive > int (length lines)
                 \<or> startIndex \<ge> endIndexExclusive then
                (ApplyFailed (''invalid_line_range:'' @ e_file e @ '':''
                   @ Number_toString P (of_int (start_line e)) @ ''-''
                   @ Number_toString P (of_int (end_line e))), ws)
              else
                (let replacementLines = splitLines (replacement e);
                     updated = join [LF] (take (nat startIndex) lines @ replacementLines
                                 @ drop (nat endIndexExclusive) lines)
                 in applyEdits P dir es (add_unique touched (e_file e))
                      (ws(filePath \<mapsto> updated)))))"

definition applyEditPlan :: "platform \<Rightarrow> string \<Rightarrow> EditPlan \<Rightarrow> workspace \<Rightarrow> apply_result \<times> workspace" where
  "applyEditPlan P dir pl ws = applyEdits P dir (edits pl) [] ws"

record process_env =
  QUICK_GATE_HINT_MODEL :: "string option"
  QUICK_GATE_PATCH_MODEL :: "string option"
  QUICK_GATE_ALLOW_HINT_ONLY_PATCH :: "string option"
  QUICK_GATE_MODEL_TIMEOUT_MS :: "string option"
  QUICK_GATE_MOCK_OLLAMA_HINT :: "string option"
  QUICK_GATE_MOCK_OLLAMA_PATCH :: "string option"

record routing =
  hintModel :: string
  patchModel :: string
  hintOnly :: "string list"
  allowHintOnlyPatch :: bool
  timeoutMs :: jsnum

text \<open>\<^verbatim>\<open>v || d\<close> for an environment variable.\<close>

definition env_or :: "string option \<Rightarrow> string \<Rightarrow> string" where
  "env_or v d = (if truthy (map_option JStr v) then the v else d)"

definition getModelRoutingPolicy :: "platform \<Rightarrow> process_env \<Rightarrow> routing" where
  "getModelRoutingPolicy P pe =
     (let allow = (QUICK_GATE_ALLOW_HINT_ONLY_PATCH pe = Some ''1'') in
      \<lparr> hintModel = env_or (QUICK_GATE_HINT_MODEL pe) ''qwen2.5:1.5b'',
        patchModel = env_or (QUICK_GATE_PATCH_MODEL pe) ''mistral:7b'',
        hintOnly = (if allow then [] else [''qwen2.5:1.5b'', ''qwen3:4b'', ''llama3.2:latest'']),
        allowHintOnlyPatch = allow,
        timeoutMs = (if truthy (map_option JStr (QUICK_GATE_MODEL_TIMEOUT_MS pe))
                     then String_toNumber P (the (QUICK_GATE_MODEL_TIMEOUT_MS pe))
                     else Num 60000) \<rparr>)"

definition runHintModel :: "platform \<Rightarrow> process_env \<Rightarrow> routing \<Rightarrow> CommandTrace \<Rightarrow> hint_result" where
  "runHintModel P pe rt spawned =
     (case callOllama (hintModel rt) (QUICK_GATE_MOCK_OLLAMA_HINT pe) spawned of
        Failed why \<Rightarrow> HintRejected (hintModel rt) why
      | Output out \<Rightarrow>
          HintAccepted (hintModel rt)
            (case parseJsonObject P out of
               Some (JObj kvs) \<Rightarrow>
                 (case map_of kvs ''hints'' of Some (JArr hs) \<Rightarrow> take 6 hs | _ \<Rightarrow> [])
             | _ \<Rightarrow> []))"

text \<open>
  The plan read from one model output: parse, normalize, sanitize. \<open>Inr None\<close> is a
  missing plan.
\<close>

definition planOf :: "platform \<Rightarrow> string \<Rightarrow> string \<Rightarrow> error + EditPlan option" where
  "planOf P dir out =
     (case normalizeEditPlan P (parseJsonObject P out) of
        Inl err \<Rightarrow> Inl err
      | Inr None \<Rightarrow> Inr None
      | Inr (Some basePlan) \<Rightarrow> Inr (sanitizePlanPaths P dir basePlan))"

text \<open>The part of \<^verbatim>\<open>runPatchModel\<close> after a plan has been read.\<close>

definition checkAndApply :: "platform \<Rightarrow> string \<Rightarrow> FailuresReport \<Rightarrow> string \<Rightarrow> jsnum \<Rightarrow> EditPlan
    \<Rightarrow> workspace \<Rightarrow> patch_result \<times> workspace" where
  "checkAndApply P dir failures model maxLines pl ws =
     (let allowed = allowed_files failures;
          outOfScope = filter (\<lambda>f. f \<notin> set allowed) (map e_file (edits pl))
      in if length outOfScope > 0 then (FileOutOfScope model outOfScope pl, ws)
         else
           (let scoring = scoreEditPlan (edits pl) failures maxLines
            in if js_gt (sc_predictedLines scoring) maxLines then
                 (PatchBudgetExceeded model (sc_predictedLines scoring) maxLines, ws)
               else if score scoring < 1 / 2 then
                 (DiffScoreTooLow model (score scoring) (touchedFiles scoring) pl, ws)
               else
                 (case applyEditPlan P dir pl ws of
                    (ApplyFailed details, ws') \<Rightarrow> (ApplyPlanFailed model details pl, ws')
                  | (Applied touched, ws') \<Rightarrow>
                      (PatchAccepted model (score scoring) (sc_predictedLines scoring)
                         (touchedFiles scoring) (p_summary pl) pl, ws'))))"

text \<open>
  The part of \<^verbatim>\<open>runPatchModel\<close> before a plan has been read, given the traces of the
  first model command and of the retry: it throws, returns a result object early
  (\<open>Inr (Inl r)\<close>), or has a plan (\<open>Inr (Inr plan)\<close>).
\<close>

definition readPlan :: "platform \<Rightarrow> process_env \<Rightarrow> string \<Rightarrow> routing \<Rightarrow> CommandTrace \<Rightarrow> CommandTrace
    \<Rightarrow> error + (patch_result + EditPlan)" where
  "readPlan P pe dir rt first retry =
     (if patchModel rt \<in> set (hintOnly rt) then Inr (Inl (PatchModelIsHintOnly (patchModel rt)))
      else
        (case callOllama (patchModel rt) (QUICK_GATE_MOCK_OLLAMA_PATCH pe) first of
           Failed why \<Rightarrow> Inr (Inl (ModelCallFailed (patchModel rt) why))
         | Output out \<Rightarrow>
             (case planOf P dir out of
                Inl err \<Rightarrow> Inl err
              | Inr (Some pl) \<Rightarrow> Inr (Inr pl)
              | Inr None \<Rightarrow>
                  (case callOllama (patchModel rt) (QUICK_GATE_MOCK_OLLAMA_PATCH pe) retry of
                     Failed why \<Rightarrow> Inr (Inl (InvalidEditPlanJson (patchModel rt) []))
                   | Output out2 \<Rightarrow>
                       (case planOf P dir out2 of
                          Inl err \<Rightarrow> Inl err
                        | Inr None \<Rightarrow> Inr (Inl (InvalidEditPlanJson (patchModel rt) (safeSlice out2 500)))
                        | Inr (Some pl) \<Rightarrow> Inr (Inr pl))))))"

text \<open>
  \<^verbatim>\<open>runPatchModel\<close>: the result object and the working tree after it, or the error
  thrown.
\<close>

definition runPatchModel :: "platform \<Rightarrow> process_env \<Rightarrow> string \<Rightarrow> FailuresReport \<Rightarrow> routing \<Rightarrow> jsnum
    \<Rightarrow> CommandTrace \<Rightarrow> CommandTrace \<Rightarrow> workspace \<Rightarrow> error + (patch_result \<times> workspace)" where
  "runPatchModel P pe dir failures rt maxLines first retry ws =
     (case readPlan P pe dir rt first retry of
        Inl err \<Rightarrow> Inl err
      | Inr (Inl early) \<Rightarrow> Inr (early, ws)
      | Inr (Inr pl) \<Rightarrow> Inr (checkAndApply P dir failures (patchModel rt) maxLines pl ws))"

section \<open>deterministic-prefix.js\<close>

definition squote :: char where
  "squote = CHR 0x27"

definition dquote :: char where
  "dquote = CHR 0x22"

definition shellQuote :: "string \<Rightarrow> string" where
  "shellQuote v =
     [squote] @ concat (map (\<lambda>c. if c = squote then [squote, dquote, squote, dquote, squote] else [c]) v)
       @ [squote]"

definition inScopeFiles :: "FailuresReport \<Rightarrow> string list" where
  "inScopeFiles failures =
     foldl pushFile []
       ((case fr_changed_files failures of Some fs \<Rightarrow> fs | None \<Rightarrow> []) @ finding_files failures)"

definition hasGateFailure :: "FailuresReport \<Rightarrow> string \<Rightarrow> bool" where
  "hasGateFailure failures gate = list_ex (\<lambda>f. f_gate f = gate) (fr_findings failures)"

text \<open>\<^verbatim>\<open>s.includes(sub)\<close> and \<^verbatim>\<open>s.endsWith(suf)\<close>.\<close>

fun includes_str :: "string \<Rightarrow> string \<Rightarrow> bool" where
  "includes_str [] sub = (sub = [])"
| "includes_str (c # cs) sub = (startsWith (c # cs) sub \<or> includes_str cs sub)"

definition endsWith :: "string \<Rightarrow> string \<Rightarrow> bool" where
  "endsWith s suf = startsWith (rev s) (rev suf)"

text \<open>
  \<^verbatim>\<open>path.extname\<close> on a path without a trailing slash: from the last dot of the last
  segment, and empty when that segment has no dot or only a leading one.
\<close>

definition basename :: "string \<Rightarrow> string" where
  "basename s = rev (takeWhile (\<lambda>c. c \<noteq> CHR ''/'') (rev s))"

definition extname :: "string \<Rightarrow> string" where
  "extname s =
     (let b = basename s in
      case lastIndexOf CHR ''.'' b of None \<Rightarrow> [] | Some i \<Rightarrow> (if i = 0 then [] else drop i b))"

definition isEligibleFile :: "string \<Rightarrow> bool" where
  "isEligibleFile f =
     (if \<not> list_ex (endsWith f) [''.js'', ''.jsx'', ''.ts'', ''.tsx'', ''.mjs'', ''.cjs''] then False
      else if list_ex (\<lambda>d. startsWith f (d @ ''/'') \<or> includes_str f (''/'' @ d @ ''/''))
                [''dist'', ''build'', ''coverage'', ''.next''] then False
      else if list_ex (endsWith f) [''.min.js'', ''.min.mjs'', ''.min.cjs''] then False
      else True)"

definition scopedFiles :: "FailuresReport \<Rightarrow> string list" where
  "scopedFiles failures =
     take 20
       (filter isEligibleFile
         (filter (\<lambda>f. extname f \<noteq> [])
           (filter (\<lambda>f. \<not> includes_str f ''node_modules'')
             (filter (\<lambda>f. \<not> includes_str f ''..'')
               (filter (\<lambda>f. \<not> isAbsolute f)
                 (filter (\<lambda>f. \<not> startsWith f ''.'') (inScopeFiles failures)))))))"

definition runLintProblemAutofix :: "(string \<Rightarrow> spawn_result) \<Rightarrow> string \<Rightarrow> string list \<Rightarrow> action option" where
  "runLintProblemAutofix spawn dir fs =
     (if length fs = 0 then None
      else
        (let fileArgs = join '' '' (map shellQuote fs);
             cmd = ''npx eslint '' @ fileArgs @ '' --fix --fix-type problem'';
             result = runCommand spawn cmd dir
         in Some (LintProblemAutofix (exit_code result = 0) cmd (exit_code result) fs)))"

text \<open>
  \<^verbatim>\<open>runDeterministicPreFix\<close>, with what the lint command does to the working tree when
  it is run.
\<close>

definition runDeterministicPreFix :: "(string \<Rightarrow> spawn_result) \<Rightarrow> (workspace \<Rightarrow> workspace) \<Rightarrow> string
    \<Rightarrow> FailuresReport \<Rightarrow> workspace \<Rightarrow> action list \<times> workspace" where
  "runDeterministicPreFix spawn effect dir failures ws =
     (if hasGateFailure failures ''lint'' then
        (case runLintProblemAutofix spawn dir (scopedFiles failures) of
           Some act \<Rightarrow> ([act], effect ws)
         | None \<Rightarrow> ([], ws))
      else ([], ws))"

section \<open>summarize-command.js\<close>

definition scopeForFinding :: "finding \<Rightarrow> string" where
  "scopeForFinding f =
     (if (case f_files f of Some fs \<Rightarrow> length fs = 1 | None \<Rightarrow> False) then ''single_file''
      else if truthy (map_option JStr (f_route f))
              \<and> (case f_files f of Some fs \<Rightarrow> length fs \<le> 1 | None \<Rightarrow> True) then ''single_route''
      else ''cross_route'')"

definition actionForGate :: "string \<Rightarrow> string" where
  "actionForGate gate =
     (if gate = ''lint'' then ''Apply targeted lint fixes and re-run lint deterministically.''
      else if gate = ''typecheck'' then
        ''Resolve TypeScript errors for impacted files and re-run typecheck.''
      else if gate = ''build'' then
        ''Fix build-breaking code paths and confirm production build passes.''
      else ''Reduce route-level performance/accessibility regressions and re-run lighthouse.'')"

definition readFailures :: "store \<Rightarrow> string \<Rightarrow> error + FailuresReport" where
  "readFailures st path =
     (case st path of
        None \<Rightarrow> Inl MissingInput
      | Some (FailuresJson failures) \<Rightarrow> Inr failures
      | Some other \<Rightarrow> Inl TypeError)"

definition agentBrief :: "platform \<Rightarrow> FailuresReport \<Rightarrow> AgentBrief" where
  "agentBrief P failures =
     \<lparr> ab_run_id = fr_run_id failures,
       ab_mode = fr_mode failures,
       ab_status = fr_status failures,
       ab_summary =
         (if fr_status failures = ''pass'' then ''All deterministic gates passed.''
          else Number_toString P (of_nat (length (fr_findings failures)))
                 @ '' deterministic finding(s) require repair.''),
       ab_priority_actions =
         map (\<lambda>f. \<lparr> pa_finding_id = f_id f,
                      pa_action = actionForGate (f_gate f),
                      pa_scope = scopeForFinding f,
                      pa_target_files = (case f_files f of Some fs \<Rightarrow> fs | None \<Rightarrow> []),
                      pa_rationale = f_gate f
                        @ '' failed deterministically. Address this fact before any inferred optimizations.'' \<rparr>)
             (fr_findings failures),
       ab_max_attempts = maxAttempts DEFAULT_POLICY,
       ab_max_patch_lines = maxPatchLines DEFAULT_POLICY,
       ab_abort_on_no_improvement = abortOnNoImprovement DEFAULT_POLICY,
       ab_escalation_required = (fr_status failures \<noteq> ''pass'') \<rparr>"

text \<open>
  \<^verbatim>\<open>executeSummarize\<close>, given the verdict of the brief schema: the status returned and
  the store after the two writes, or the error thrown.
\<close>

definition executeSummarize :: "platform \<Rightarrow> (AgentBrief \<Rightarrow> bool) \<Rightarrow> string \<Rightarrow> store \<Rightarrow> error + (string \<times> store)" where
  "executeSummarize P brief_schema input st =
     (case readFailures st input of
        Inl e \<Rightarrow> Inl e
      | Inr failures \<Rightarrow>
          (let brief = agentBrief P failures in
           if \<not> brief_schema brief then Inl SchemaValidationFailed
           else Inr (ab_status brief,
                     st(AGENT_BRIEF_JSON_FILE \<mapsto> AgentBriefJson brief,
                        AGENT_BRIEF_MD_FILE \<mapsto> AgentBriefMd failures brief))))"

section \<open>repair-command.js\<close>

definition NO_IMPROVEMENT :: string where
  "NO_IMPROVEMENT = ''NO_IMPROVEMENT''"

definition PATCH_BUDGET_EXCEEDED :: string where
  "PATCH_BUDGET_EXCEEDED = ''PATCH_BUDGET_EXCEEDED''"

definition UNKNOWN_BLOCKER :: string where
  "UNKNOWN_BLOCKER = ''UNKNOWN_BLOCKER''"

definition REPAIR_REPORT_FILE :: string where
  "REPAIR_REPORT_FILE = ''.quick-gate/repair-report.json''"

definition ESCALATION_FILE :: string where
  "ESCALATION_FILE = ''.quick-gate/escalation.json''"

text \<open>\<^verbatim>\<open>m.get(f) || 0\<close> on the map that \<^verbatim>\<open>diffSnapshot\<close> returns.\<close>

definition get_or_0 :: "(string \<times> int) list \<Rightarrow> string \<Rightarrow> int" where
  "get_or_0 m f = (case map_of m f of Some v \<Rightarrow> v | None \<Rightarrow> 0)"

definition computePatchLines :: "(string \<times> int) list \<Rightarrow> (string \<times> int) list \<Rightarrow> int" where
  "computePatchLines beforeMap afterMap =
     sum_list (map (\<lambda>f. \<bar>get_or_0 afterMap f - get_or_0 beforeMap f\<bar>)
                   (remdups (map fst beforeMap @ map fst afterMap)))"

text \<open>
  The state an invocation works on: the JSON artifacts, the source files of the working
  tree (without the directories that backup and restore exclude), and the backup
  directories.
\<close>

record repair_state =
  rs_store :: store
  rs_workspace :: workspace
  rs_backups :: "string \<Rightarrow> workspace option"

definition backupWorkspace :: "bool \<Rightarrow> string \<Rightarrow> repair_state \<Rightarrow> repair_state" where
  "backupWorkspace hasRsync backupDir s =
     s\<lparr> rs_backups := (rs_backups s)(backupDir \<mapsto>
          (if hasRsync then rs_workspace s
           else (case rs_backups s backupDir of Some old \<Rightarrow> old ++ rs_workspace s
                 | None \<Rightarrow> rs_workspace s))) \<rparr>"

definition restoreWorkspace :: "bool \<Rightarrow> string \<Rightarrow> repair_state \<Rightarrow> repair_state" where
  "restoreWorkspace hasRsync backupDir s =
     (case rs_backups s backupDir of
        None \<Rightarrow> s
      | Some saved \<Rightarrow>
          s\<lparr> rs_workspace := (if hasRsync then saved else rs_workspace s ++ saved) \<rparr>)"

definition writeJsonFileSync :: "string \<Rightarrow> artifact \<Rightarrow> repair_state \<Rightarrow> repair_state" where
  "writeJsonFileSync path data s = s\<lparr> rs_store := (rs_store s)(path \<mapsto> data) \<rparr>"

text \<open>
  What one attempt reads from outside: the time since the loop started, the two
  \<^verbatim>\<open>diffSnapshot\<close> maps, the lint autofix command and its effect on the files, the
  world of the rerun after a pre-fix, the environment variables and the traces of the
  three model commands, and the world of the rerun that ends the attempt.
\<close>

record attempt_env =
  ae_elapsed_ms :: int
  ae_preActionDiff :: "(string \<times> int) list"
  ae_postActionDiff :: "(string \<times> int) list"
  ae_eslint :: "string \<Rightarrow> spawn_result"
  ae_eslint_effect :: "workspace \<Rightarrow> workspace"
  ae_prefix_rerun :: run_env
  ae_prefix_brief_schema :: "AgentBrief \<Rightarrow> bool"
  ae_process_env :: process_env
  ae_hint_trace :: CommandTrace
  ae_patch_trace :: CommandTrace
  ae_retry_trace :: CommandTrace
  ae_rerun :: run_env
  ae_brief_schema :: "AgentBrief \<Rightarrow> bool"

record repair_env =
  rv_config_file :: "user_config jfile"
  rv_hasRsync :: bool
  rv_attempt :: "int \<Rightarrow> attempt_env"

record repair_actions =
  ra_attempted :: "action list"
  ra_currentFailures :: FailuresReport
  ra_shortCircuitPass :: bool

text \<open>The first part of \<^verbatim>\<open>runRepairActions\<close>: the pre-fix and, when it acted, the rerun.\<close>

definition prefixStage :: "platform \<Rightarrow> attempt_env \<Rightarrow> string \<Rightarrow> FailuresReport \<Rightarrow> repair_state
    \<Rightarrow> error + (action list \<times> FailuresReport \<times> repair_state)" where
  "prefixStage P aenv dir failures s =
     (case runDeterministicPreFix (ae_eslint aenv) (ae_eslint_effect aenv) dir failures (rs_workspace s) of
        (deterministicActions, ws1) \<Rightarrow>
          (if length deterministicActions > 0 then
             (case executeRun P (ae_prefix_rerun aenv) (fr_mode failures)
                     (case fr_changed_files failures of Some fs \<Rightarrow> fs | None \<Rightarrow> []) dir (rs_store s) of
                Inl e \<Rightarrow> Inl e
              | Inr (rerunAfterDeterministic, st2) \<Rightarrow>
                  (case readFailures st2 FAILURES_FILE of
                     Inl e \<Rightarrow> Inl e
                   | Inr currentFailures \<Rightarrow>
                       (case executeSummarize P (ae_prefix_brief_schema aenv) FAILURES_FILE st2 of
                          Inl e \<Rightarrow> Inl e
                        | Inr (summarized, st3) \<Rightarrow>
                            Inr (deterministicActions @
                                   [DeterministicPrefixRerun (rr_status rerunAfterDeterministic)
                                      (length (fr_findings currentFailures))],
                                 currentFailures,
                                 s\<lparr> rs_workspace := ws1, rs_store := st3 \<rparr>))))
           else Inr ([], failures, s\<lparr> rs_workspace := ws1 \<rparr>)))"

definition runRepairActions :: "platform \<Rightarrow> attempt_env \<Rightarrow> string \<Rightarrow> FailuresReport \<Rightarrow> jsnum \<Rightarrow> bool
    \<Rightarrow> repair_state \<Rightarrow> error + (repair_actions \<times> repair_state)" where
  "runRepairActions P aenv dir failures maxLines deterministicOnly s =
     (case prefixStage P aenv dir failures s of
        Inl e \<Rightarrow> Inl e
      | Inr (attempted, currentFailures, s1) \<Rightarrow>
          (if length (fr_findings currentFailures) = 0 then
             Inr (\<lparr> ra_attempted = attempted, ra_currentFailures = currentFailures,
                     ra_shortCircuitPass = True \<rparr>, s1)
           else if deterministicOnly then
             Inr (\<lparr> ra_attempted = attempted @ [DeterministicOnlyMode],
                     ra_currentFailures = currentFailures, ra_shortCircuitPass = False \<rparr>, s1)
           else
             (let hasTypecheckFailure = hasGateFailure currentFailures ''typecheck'';
                  hasBuildFailure = hasGateFailure currentFailures ''build'';
                  hasLighthouseFailure = hasGateFailure currentFailures ''lighthouse'';
                  hasLintFailure = hasGateFailure currentFailures ''lint'';
                  attempted1 = attempted @
                    (if hasTypecheckFailure \<or> hasBuildFailure \<or> hasLighthouseFailure
                     then [RequiresManualOrModelPatch] else []);
                  modelPatchAllowed = (hasLintFailure \<or> hasTypecheckFailure)
              in if \<not> modelPatchAllowed then
                   Inr (\<lparr> ra_attempted = attempted1 @
                             [SkipModelPatch (foldl add_unique [] (map f_gate (fr_findings currentFailures)))],
                           ra_currentFailures = currentFailures, ra_shortCircuitPass = False \<rparr>, s1)
                 else
                   (let modelPolicy = getModelRoutingPolicy P (ae_process_env aenv);
                        hintResult = runHintModel P (ae_process_env aenv) modelPolicy (ae_hint_trace aenv)
                    in case runPatchModel P (ae_process_env aenv) dir currentFailures modelPolicy maxLines
                              (ae_patch_trace aenv) (ae_retry_trace aenv) (rs_workspace s1) of
                         Inl e \<Rightarrow> Inl e
                       | Inr (patchResult, ws2) \<Rightarrow>
                           Inr (\<lparr> ra_attempted = attempted1 @ [OllamaHint hintResult, OllamaPatchPlan patchResult],
                                   ra_currentFailures = currentFailures, ra_shortCircuitPass = False \<rparr>,
                                s1\<lparr> rs_workspace := ws2 \<rparr>)))))"

text \<open>
  The policy of an invocation: \<^verbatim>\<open>Number(a || b || c)\<close> field by field, a number or
  \<^verbatim>\<open>NaN\<close>.
\<close>

record repair_policy =
  rp_maxAttempts :: jsnum
  rp_maxPatchLines :: jsnum
  rp_abortOnNoImprovement :: jsnum
  rp_timeCapMs :: jsnum

text \<open>\<^verbatim>\<open>a || b\<close>.\<close>

definition or_js :: "json option \<Rightarrow> json option \<Rightarrow> json option" where
  "or_js a b = (if truthy a then a else b)"

definition repairPolicy :: "platform \<Rightarrow> json option \<Rightarrow> config \<Rightarrow> repair_policy" where
  "repairPolicy P maxAttemptsArg cfg =
     \<lparr> rp_maxAttempts =
         Number_js P (or_js (or_js maxAttemptsArg (Some (maxAttempts (cfg_policy cfg))))
                        (Some (maxAttempts DEFAULT_POLICY))),
       rp_maxPatchLines =
         Number_js P (or_js (Some (maxPatchLines (cfg_policy cfg))) (Some (maxPatchLines DEFAULT_POLICY))),
       rp_abortOnNoImprovement =
         Number_js P (or_js (Some (abortOnNoImprovement (cfg_policy cfg)))
                        (Some (abortOnNoImprovement DEFAULT_POLICY))),
       rp_timeCapMs =
         Number_js P (or_js (Some (timeCapMs (cfg_policy cfg))) (Some (timeCapMs DEFAULT_POLICY))) \<rparr>"

text \<open>\<^verbatim>\<open>attempt <= policy.maxAttempts\<close>: false when the bound is \<^verbatim>\<open>NaN\<close>.\<close>

definition attempt_le :: "int \<Rightarrow> jsnum \<Rightarrow> bool" where
  "attempt_le attempt bound = (case bound of Num q \<Rightarrow> of_int attempt \<le> q | NaN \<Rightarrow> False)"

definition jsnum_toString :: "platform \<Rightarrow> jsnum \<Rightarrow> string" where
  "jsnum_toString P n = (case n of Num q \<Rightarrow> Number_toString P q | NaN \<Rightarrow> ''NaN'')"

text \<open>
  One pass through the body of the \<^verbatim>\<open>for\<close> loop: it returns from \<^verbatim>\<open>executeRepair\<close>
  (\<open>Return\<close>, with the value returned or the error thrown), or goes on to the next attempt
  with the new \<^verbatim>\<open>failures\<close>, \<^verbatim>\<open>previousCount\<close>, \<^verbatim>\<open>noImprovement\<close> and \<^verbatim>\<open>attempts\<close>.
\<close>

datatype step =
    Return "error + repair_outcome" repair_state
  | Continue FailuresReport nat nat "attempt_record list" repair_state

text \<open>
  The rerun of the gates that ends an attempt, with the failures read back and the brief
  refreshed.
\<close>

definition rerunStage :: "platform \<Rightarrow> attempt_env \<Rightarrow> string \<Rightarrow> FailuresReport \<Rightarrow> store
    \<Rightarrow> error + (run_return \<times> FailuresReport \<times> store)" where
  "rerunStage P aenv dir failuresForRerun st =
     (case executeRun P (ae_rerun aenv) (fr_mode failuresForRerun)
             (case fr_changed_files failuresForRerun of Some fs \<Rightarrow> fs | None \<Rightarrow> []) dir st of
        Inl e \<Rightarrow> Inl e
      | Inr (rerun, st3) \<Rightarrow>
          (case readFailures st3 FAILURES_FILE of
             Inl e \<Rightarrow> Inl e
           | Inr failures' \<Rightarrow>
               (case executeSummarize P (ae_brief_schema aenv) FAILURES_FILE st3 of
                  Inl e \<Rightarrow> Inl e
                | Inr (summarized, st4) \<Rightarrow> Inr (rerun, failures', st4))))"

text \<open>The end of the loop body, from the comparison of the finding counts on.\<close>

definition bookkeeping :: "platform \<Rightarrow> repair_env \<Rightarrow> repair_policy \<Rightarrow> string \<Rightarrow> int \<Rightarrow> nat \<Rightarrow> nat
    \<Rightarrow> attempt_record list \<Rightarrow> int \<Rightarrow> action list \<Rightarrow> run_return \<Rightarrow> FailuresReport
    \<Rightarrow> repair_state \<Rightarrow> step" where
  "bookkeeping P env pol backupDir attempt previousCount noImprovement attempts patchLines
     repairActions rerun failures' s4 =
     (let currentCount = length (fr_findings failures');
          improved = (currentCount < previousCount);
          worsened = (currentCount > previousCount);
          attempts' = attempts @
            [\<lparr> a_attempt = attempt, a_patch_lines = patchLines,
               a_before_findings = previousCount, a_after_findings = currentCount,
               a_improved = improved, a_worsened = worsened,
               a_status = rr_status rerun, a_actions = repairActions \<rparr>]
      in if rr_status rerun = ''pass'' then
           Return (Inr (RepairReport attempts'))
             (writeJsonFileSync REPAIR_REPORT_FILE (RepairJson (RepairReport attempts')) s4)
         else
           (let s5 = (if worsened then restoreWorkspace (rv_hasRsync env) backupDir s4 else s4);
                noImprovement' = (if improved then 0 else noImprovement + 1)
            in if js_ge (int noImprovement') (rp_abortOnNoImprovement pol) then
                 (let escalation = Escalation NO_IMPROVEMENT
                        (''No measurable improvement for '' @ Number_toString P (of_nat noImprovement')
                           @ '' consecutive attempt(s).'')
                        (AttemptsEvidence attempts' ''.quick-gate/failures.json''
                           ''.quick-gate/run-metadata.json'')
                  in Return (Inr escalation)
                       (writeJsonFileSync ESCALATION_FILE (RepairJson escalation) s5))
               else Continue failures' currentCount noImprovement' attempts' s5))"

definition attemptStep :: "platform \<Rightarrow> repair_env \<Rightarrow> repair_policy \<Rightarrow> bool \<Rightarrow> string \<Rightarrow> int
    \<Rightarrow> FailuresReport \<Rightarrow> nat \<Rightarrow> nat \<Rightarrow> attempt_record list \<Rightarrow> repair_state \<Rightarrow> step" where
  "attemptStep P env pol deterministicOnly dir attempt failures previousCount noImprovement attempts s =
     (let aenv = rv_attempt env attempt in
      if js_gt (ae_elapsed_ms aenv) (rp_timeCapMs pol) then
        (let escalation = Escalation UNKNOWN_BLOCKER
               (''Time cap reached ('' @ jsnum_toString P (rp_timeCapMs pol) @ ''ms).'')
               NoEvidence
         in Return (Inr escalation) (writeJsonFileSync ESCALATION_FILE (RepairJson escalation) s))
      else
        (let backupDir = ''.quick-gate/backup-attempt-'' @ Number_toString P (of_int attempt);
             s1 = backupWorkspace (rv_hasRsync env) backupDir s;
             preActionDiff = ae_preActionDiff aenv
         in case runRepairActions P aenv dir failures (rp_maxPatchLines pol) deterministicOnly s1 of
              Inl e \<Rightarrow> Return (Inl e) s1
            | Inr (repairResult, s2) \<Rightarrow>
                (let repairActions = ra_attempted repairResult;
                     failuresForRerun = ra_currentFailures repairResult;
                     postActionDiff = ae_postActionDiff aenv;
                     patchLines = computePatchLines preActionDiff postActionDiff
                 in if js_gt patchLines (rp_maxPatchLines pol) then
                      (let s3 = restoreWorkspace (rv_hasRsync env) backupDir s2;
                           escalation = Escalation PATCH_BUDGET_EXCEEDED
                             (''Patch budget exceeded at attempt '' @ Number_toString P (of_int attempt)
                                @ '': '' @ Number_toString P (of_int patchLines) @ '' > ''
                                @ jsnum_toString P (rp_maxPatchLines pol))
                             (BudgetEvidence attempt patchLines (rp_maxPatchLines pol)
                                (length preActionDiff) (length postActionDiff))
                       in Return (Inr escalation) (writeJsonFileSync ESCALATION_FILE (RepairJson escalation) s3))
                    else if ra_shortCircuitPass repairResult then
                      (let result = RepairReport (attempts @
                             [\<lparr> a_attempt = attempt, a_patch_lines = patchLines,
                                a_before_findings = previousCount, a_after_findings = 0,
                                a_improved = True, a_worsened = False, a_status = ''pass'',
                                a_actions = repairActions \<rparr>])
                       in Return (Inr result) (writeJsonFileSync REPAIR_REPORT_FILE (RepairJson result) s2))
                    else
                      (case rerunStage P aenv dir failuresForRerun (rs_store s2) of
                         Inl e \<Rightarrow> Return (Inl e) s2
                       | Inr (rerun, failures', st4) \<Rightarrow>
                           bookkeeping P env pol backupDir attempt previousCount noImprovement attempts
                             patchLines repairActions rerun failures' (s2\<lparr> rs_store := st4 \<rparr>)))))"

definition attempts_left :: "jsnum \<Rightarrow> int \<Rightarrow> nat" where
  "attempts_left bound attempt = (case bound of Num q \<Rightarrow> nat (\<lfloor>q\<rfloor> + 1 - attempt) | NaN \<Rightarrow> 0)"

text \<open>The \<^verbatim>\<open>for\<close> loop of \<^verbatim>\<open>executeRepair\<close> and the escalation after it.\<close>

function repairLoop :: "platform \<Rightarrow> repair_env \<Rightarrow> repair_policy \<Rightarrow> bool \<Rightarrow> string \<Rightarrow> int
    \<Rightarrow> FailuresReport \<Rightarrow> nat \<Rightarrow> nat \<Rightarrow> attempt_record list \<Rightarrow> repair_state
    \<Rightarrow> (error + repair_outcome) \<times> repair_state" where
  "repairLoop P env pol deterministicOnly dir attempt failures previousCount noImprovement attempts s =
     (if attempt_le attempt (rp_maxAttempts pol) then
        (case attemptStep P env pol deterministicOnly dir attempt failures previousCount
                noImprovement attempts s of
           Return r s' \<Rightarrow> (r, s')
         | Continue failures' currentCount noImprovement' attempts' s' \<Rightarrow>
             repairLoop P env pol deterministicOnly dir (attempt + 1) failures' currentCount
               noImprovement' attempts' s')
      else
        (let escalation = Escalation UNKNOWN_BLOCKER
               (''Attempts exhausted ('' @ jsnum_toString P (rp_maxAttempts pol) @ '').'')
               (LatestFailures ''.quick-gate/failures.json'')
         in (Inr escalation, writeJsonFileSync ESCALATION_FILE (RepairJson escalation) s)))"
  by pat_completeness auto
termination
  by (relation "measure (\<lambda>(P, env, pol, d, dir, attempt, rest). attempts_left (rp_maxAttempts pol) attempt)")
     (auto simp: attempts_left_def attempt_le_def le_floor_iff split: jsnum.splits)

declare repairLoop.simps [simp del]

definition executeRepair :: "platform \<Rightarrow> repair_env \<Rightarrow> string \<Rightarrow> json option \<Rightarrow> bool \<Rightarrow> string
    \<Rightarrow> repair_state \<Rightarrow> (error + repair_outcome) \<times> repair_state" where
  "executeRepair P env input maxAttemptsArg deterministicOnly dir s =
     (case loadConfig (path_join P dir ''quick-gate.config.json'') (rv_config_file env) of
        Inl e \<Rightarrow> (Inl e, s)
      | Inr cfg \<Rightarrow>
          (let pol = repairPolicy P maxAttemptsArg cfg in
           case readFailures (rs_store s) input of
             Inl e \<Rightarrow> (Inl e, s)
           | Inr failures \<Rightarrow>
               repairLoop P env pol deterministicOnly dir 1 failures
                 (length (fr_findings failures)) 0 [] s))"

section \<open>Notions used in the statements\<close>

text \<open>The failures report that a store holds at \<^verbatim>\<open>.quick-gate/failures.json\<close>.\<close>

definition written_failures :: "store \<Rightarrow> FailuresReport option" where
  "written_failures st = (case st FAILURES_FILE of Some (FailuresJson r) \<Rightarrow> Some r | _ \<Rightarrow> None)"




text \<open>The attempts log that an escalation carries.\<close>

fun evidence_attempts :: "evidence \<Rightarrow> attempt_record list option" where
  "evidence_attempts (AttemptsEvidence attempts p q) = Some attempts"
| "evidence_attempts ev = None"

text \<open>The last \<open>k\<close> records of a log exist and none of them improved.\<close>

definition last_not_improved :: "nat \<Rightarrow> attempt_record list \<Rightarrow> bool" where
  "last_not_improved k attempts =
     (k \<le> length attempts \<and> list_all (\<lambda>r. \<not> a_improved r) (drop (length attempts - k) attempts))"

text \<open>
  A text with every CR LF pair replaced by LF, and the rewrite of a file that the
  specification describes for one edit: the lines of the normalized text outside the
  edited range stay, the lines of the normalized replacement stand in the range, and
  all are joined by LF.
\<close>

fun crlf_to_lf :: "string \<Rightarrow> string" where
  "crlf_to_lf [] = []"
| "crlf_to_lf [c] = [c]"
| "crlf_to_lf (c # d # cs) =
     (if c = CR \<and> d = LF then LF # crlf_to_lf cs else c # crlf_to_lf (d # cs))"

definition spliceLF :: "edit \<Rightarrow> string \<Rightarrow> string" where
  "spliceLF e content =
     join [LF]
       (take (nat (start_line e - 1)) (split_on LF (crlf_to_lf content))
        @ split_on LF (crlf_to_lf (replacement e))
        @ drop (nat (end_line e)) (split_on LF (crlf_to_lf content)))"

definition spliceFile :: "platform \<Rightarrow> string \<Rightarrow> workspace \<Rightarrow> edit \<Rightarrow> workspace" where
  "spliceFile P dir ws e =
     (case ws (path_join P dir (e_file e)) of
        None \<Rightarrow> ws
      | Some content \<Rightarrow> ws(path_join P dir (e_file e) \<mapsto> spliceLF e content))"

text \<open>When reading the manifest throws, and when reading the Lighthouse artifact does.\<close>

definition manifest_throws :: "json jfile \<Rightarrow> bool" where
  "manifest_throws pj = (case pj of Missing \<Rightarrow> True | Invalid \<Rightarrow> True | Holds pkg \<Rightarrow> pkg = JNull)"

definition artifact_throws :: "json jfile \<Rightarrow> bool" where
  "artifact_throws a =
     (case a of
        Missing \<Rightarrow> False
      | Invalid \<Rightarrow> True
      | Holds data \<Rightarrow> (case iterate data of None \<Rightarrow> True | Some rows \<Rightarrow> JNull \<in> set rows))"

text \<open>The trace of the Lighthouse command of a run.\<close>

definition lighthouse_trace :: "gate_env \<Rightarrow> string \<Rightarrow> config \<Rightarrow> CommandTrace" where
  "lighthouse_trace env dir cfg =
     (case packageScripts (package_json env) of
        Inl e \<Rightarrow> runCommand (spawnSync env ''lighthouse'') [] dir
      | Inr scripts \<Rightarrow>
          runCommand (spawnSync env ''lighthouse'')
            (the (resolveGateCommand ''lighthouse'' scripts (cfg_commands cfg))) dir)"

text \<open>
  What one invocation of the repair does to the two terminal files: it writes the one that
  goes with the value returned and leaves the other as it was.
\<close>

definition one_terminal_file :: "repair_state \<Rightarrow> repair_outcome \<Rightarrow> repair_state \<Rightarrow> bool" where
  "one_terminal_file s out s' =
     (case out of
        RepairReport attempts \<Rightarrow>
          rs_store s' REPAIR_REPORT_FILE = Some (RepairJson out)
          \<and> rs_store s' ESCALATION_FILE = rs_store s ESCALATION_FILE
      | Escalation code msg ev \<Rightarrow>
          rs_store s' ESCALATION_FILE = Some (RepairJson out)
          \<and> rs_store s' REPAIR_REPORT_FILE = rs_store s REPAIR_REPORT_FILE)"

section \<open>Sample inputs\<close>

text \<open>
  A platform for the closed statements below. Its functions agree with the built-ins on
  the arguments that occur there: decimal numerals for integers, \<^verbatim>\<open>http://\<close> URLs and
  strings without a scheme, strings of decimal digits and the text \<^verbatim>\<open>abc\<close> as numbers,
  and paths without dot segments.
\<close>

function show_nat :: "nat \<Rightarrow> string" where
  "show_nat n =
     (if n < 10 then [''0123456789'' ! n] else show_nat (n div 10) @ [''0123456789'' ! (n mod 10)])"
  by pat_completeness auto
termination
  by (relation "measure id") auto

declare show_nat.simps [simp del]

definition show_int :: "int \<Rightarrow> string" where
  "show_int i = (if i < 0 then CHR ''-'' # show_nat (nat (- i)) else show_nat (nat i))"

definition is_digit :: "char \<Rightarrow> bool" where
  "is_digit c = (let n = (of_char c :: nat) in 48 \<le> n \<and> n \<le> 57)"

definition sample_number :: "string \<Rightarrow> jsnum" where
  "sample_number s =
     (if list_all is_digit s
      then Num (of_nat (foldl (\<lambda>a c. 10 * a + (of_char c - 48)) 0 s))
      else NaN)"

definition sample_pathname :: "string \<Rightarrow> string option" where
  "sample_pathname s =
     (if take 7 s = ''http://'' \<and> length s > 7 then
        (let rest = dropWhile (\<lambda>c. c \<noteq> CHR ''/'' \<and> c \<noteq> CHR ''?'' \<and> c \<noteq> CHR ''#'') (drop 7 s);
             p = takeWhile (\<lambda>c. c \<noteq> CHR ''?'' \<and> c \<noteq> CHR ''#'') rest
         in Some (if p = [] then ''/'' else p))
      else None)"

text \<open>
  Two model outputs, taken from the adapter's tests, and what \<^verbatim>\<open>JSON.parse\<close> makes of
  them. \<open>sample_parse\<close> knows these two texts only.
\<close>

definition plan_text_app :: string where
  "plan_text_app =
     ''{\"summary\":\"remove failure marker\",\"edits\":[{\"file\":\"src/app.ts\",\"start_line\":2,\"end_line\":2,\"replacement\":\"\"}]}''"

definition plan_json_app :: json where
  "plan_json_app =
     JObj [(''summary'', JStr ''remove failure marker''),
           (''edits'', JArr [JObj [(''file'', JStr ''src/app.ts''), (''start_line'', JNum 2),
                                   (''end_line'', JNum 2), (''replacement'', JStr [])]])]"

definition plan_text_readme :: string where
  "plan_text_readme =
     ''{\"summary\":\"edit unrelated\",\"edits\":[{\"file\":\"README.md\",\"start_line\":1,\"end_line\":1,\"replacement\":\"y\"}]}''"

definition plan_json_readme :: json where
  "plan_json_readme =
     JObj [(''summary'', JStr ''edit unrelated''),
           (''edits'', JArr [JObj [(''file'', JStr ''README.md''), (''start_line'', JNum 1),
                                   (''end_line'', JNum 1), (''replacement'', JStr ''y'')]])]"

definition sample_parse :: "string \<Rightarrow> json option" where
  "sample_parse s =
     (if s = plan_text_app then Some plan_json_app
      else if s = plan_text_readme then Some plan_json_readme
      else None)"

definition sample_platform :: platform where
  "sample_platform =
     \<lparr> Number_toString = (\<lambda>q. show_int \<lfloor>q\<rfloor>),
       URL_pathname = sample_pathname,
       JSON_parse = sample_parse,
       String_toNumber = sample_number,
       path_join = (\<lambda>a b. a @ ''/'' @ b),
       path_relative = (\<lambda>a b. drop (length a + 1) b) \<rparr>"

text \<open>The configuration that \<^verbatim>\<open>loadConfig\<close> returns when there is no configuration file.\<close>

definition default_config :: config where
  "default_config =
     \<lparr> cfg_policy = DEFAULT_POLICY, cfg_commands = [],
       cfg_thresholds = default_thresholds, cfg_source = ''defaults'' \<rparr>"

text \<open>A command that exits with the given code and writes the given text to stderr.\<close>

definition exit_with :: "int \<Rightarrow> string \<Rightarrow> spawn_result" where
  "exit_with n err =
     \<lparr> sp_status = Some n, sp_error_code = None, sp_stdout = Some [], sp_stderr = Some err,
       sp_started_at = ''2026-02-21T10:00:00.000Z'', sp_duration_ms = 12 \<rparr>"

definition sample_manifest :: json where
  "sample_manifest =
     JObj [(''scripts'', JObj [(''lint'', JStr ''eslint .''), (''typecheck'', JStr ''tsc --noEmit''),
                            (''lighthouse'', JStr ''lhci autorun'')])]"

text \<open>A project whose lint script fails, and one whose \<^verbatim>\<open>package.json\<close> is not JSON.\<close>

definition lint_fails :: gate_env where
  "lint_fails =
     \<lparr> package_json = Holds sample_manifest,
       spawnSync = (\<lambda>gate cmd. if gate = ''lint'' then exit_with 1 ''lint error'' else exit_with 0 []),
       assertion_results = Missing,
       date_now = (\<lambda>gate. 1771668000000) \<rparr>"

definition broken_manifest :: gate_env where
  "broken_manifest = lint_fails\<lparr> package_json := Invalid \<rparr>"

definition sample_run :: "gate_env \<Rightarrow> run_env" where
  "sample_run g =
     \<lparr> re_run_id = ''run_20260221100000_0a1b2c3d'',
       re_started_at = ''2026-02-21T10:00:00.000Z'',
       re_completed_at = ''2026-02-21T10:00:01.000Z'',
       re_duration_ms = 1000,
       re_timestamp = ''2026-02-21T10:00:01.000Z'',
       re_config_file = Missing,
       re_gate_env = g,
       re_hasGit = False,
       re_git = (\<lambda>cmd. exit_with 1 []),
       re_failures_schema = (\<lambda>r. True) \<rparr>"

text \<open>Three Lighthouse rows: no url, an absolute url, and a url without a scheme.\<close>

definition row_no_url :: json where
  "row_no_url = JObj [(''passed'', JBool False), (''assertion'', JStr ''categories:performance'')]"

definition row_about :: json where
  "row_about =
     JObj [(''passed'', JBool False), (''url'', JStr ''http://localhost:3000/about?utm=1''),
           (''assertion'', JStr ''categories:performance'')]"

definition row_relative :: json where
  "row_relative =
     JObj [(''passed'', JBool False), (''url'', JStr ''about?utm=1''),
           (''assertion'', JStr ''categories:performance'')]"







text \<open>
  The fixture of the repair tests: \<^verbatim>\<open>src/app.ts\<close> with a failure marker on its second
  line, the same text with that line empty, and the plan of the tests for that line. Then a file with CR LF line ends, and a plan
  that sets its second line.
\<close>

definition fixture_text :: string where
  "fixture_text = ''export const v = 1;'' @ [LF] @ ''// __LINT_FAIL__'' @ [LF]"

definition blanked_text :: string where
  "blanked_text = ''export const v = 1;'' @ [LF, LF]"

definition fixture_tree :: workspace where
  "fixture_tree = Map.empty(''/repo/src/app.ts'' \<mapsto> fixture_text)"

definition remove_marker :: EditPlan where
  "remove_marker =
     \<lparr> p_summary = ''remove failure marker'',
       edits = [\<lparr> e_file = ''src/app.ts'', start_line = 2, end_line = 2, replacement = [] \<rparr>] \<rparr>"

definition crlf_text :: string where
  "crlf_text = ''a'' @ [CR, LF] @ ''b'' @ [CR, LF] @ ''c''"

definition crlf_tree :: workspace where
  "crlf_tree = Map.empty(''/repo/src/app.ts'' \<mapsto> crlf_text)"

definition set_line2 :: EditPlan where
  "set_line2 =
     \<lparr> p_summary = ''set line 2'',
       edits = [\<lparr> e_file = ''src/app.ts'', start_line = 2, end_line = 2, replacement = ''B'' \<rparr>] \<rparr>"

text \<open>
  The failures report of the repair tests, the environment of a mocked patch model, the
  trace of a model command that is never read under the mock, and the plan of the tests
  that edits a file out of scope.
\<close>

definition sample_failures :: FailuresReport where
  "sample_failures =
     \<lparr> fr_version = ''1.0.0'', fr_run_id = ''test_run'', fr_mode = ''canary'', fr_status = ''fail'',
       fr_timestamp = ''2026-02-21T10:00:00.000Z'', fr_repo = None, fr_branch = None,
       fr_changed_files = Some [''src/app.ts''],
       fr_gates = [],
       fr_findings =
         [\<lparr> f_id = ''lint_err_0'', f_gate = ''lint'', f_severity = ''high'',
            f_summary = JStr ''lint failed'', f_files = Some [''src/app.ts''], f_route = None,
            f_metric = None, f_actual = JNum 1, f_threshold = JNum 0, f_status = ''fail'',
            f_raw = NoRaw \<rparr>],
       fr_inferred_hints = [] \<rparr>"

definition mock_patch :: "string \<Rightarrow> process_env" where
  "mock_patch out =
     \<lparr> QUICK_GATE_HINT_MODEL = Some ''qwen2.5:1.5b'', QUICK_GATE_PATCH_MODEL = Some ''mistral:7b'',
       QUICK_GATE_ALLOW_HINT_ONLY_PATCH = None, QUICK_GATE_MODEL_TIMEOUT_MS = None,
       QUICK_GATE_MOCK_OLLAMA_HINT = None, QUICK_GATE_MOCK_OLLAMA_PATCH = Some out \<rparr>"

definition no_trace :: CommandTrace where
  "no_trace = runCommand (\<lambda>cmd. exit_with 1 ''ollama: command not found'') ''ollama run'' ''/repo''"


text \<open>
  A project whose type check fails with exit code 2, the surroundings of a repair attempt on
  it, a failures report with one typecheck finding, one with no finding, and the
  \<^verbatim>\<open>.quick-gate\<close> directory holding such a report, with and without an
  \<^verbatim>\<open>escalation.json\<close> left by an earlier invocation.
\<close>

definition typecheck_fails :: gate_env where
  "typecheck_fails =
     \<lparr> package_json = Holds sample_manifest,
       spawnSync = (\<lambda>gate cmd. if gate = ''typecheck'' then exit_with 2 ''TYPE_ERROR'' else exit_with 0 []),
       assertion_results = Missing,
       date_now = (\<lambda>gate. 1771668000000) \<rparr>"

definition sample_attempt :: attempt_env where
  "sample_attempt =
     \<lparr> ae_elapsed_ms = 0,
       ae_preActionDiff = [],
       ae_postActionDiff = [],
       ae_eslint = (\<lambda>cmd. exit_with 0 []),
       ae_eslint_effect = (\<lambda>ws. ws),
       ae_prefix_rerun = sample_run typecheck_fails,
       ae_prefix_brief_schema = (\<lambda>b. True),
       ae_process_env = mock_patch plan_text_app,
       ae_hint_trace = no_trace,
       ae_patch_trace = no_trace,
       ae_retry_trace = no_trace,
       ae_rerun = sample_run typecheck_fails,
       ae_brief_schema = (\<lambda>b. True) \<rparr>"

definition sample_repair :: repair_env where
  "sample_repair = \<lparr> rv_config_file = Missing, rv_hasRsync = True, rv_attempt = (\<lambda>i. sample_attempt) \<rparr>"

definition type_failures :: FailuresReport where
  "type_failures =
     sample_failures\<lparr> fr_findings :=
       [\<lparr> f_id = ''type_err'', f_gate = ''typecheck'', f_severity = ''high'',
          f_summary = JStr ''typecheck failed'', f_files = Some [''src/app.ts''], f_route = None,
          f_metric = None, f_actual = JNum 1, f_threshold = JNum 0, f_status = ''fail'',
          f_raw = NoRaw \<rparr>] \<rparr>"

definition passing_report :: FailuresReport where
  "passing_report = sample_failures\<lparr> fr_status := ''pass'', fr_findings := [] \<rparr>"

definition state_with :: "FailuresReport \<Rightarrow> repair_state" where
  "state_with failures =
     \<lparr> rs_store = Map.empty(FAILURES_FILE \<mapsto> FailuresJson failures),
       rs_workspace = fixture_tree,
       rs_backups = Map.empty \<rparr>"

definition stale_escalation :: repair_outcome where
  "stale_escalation =
     Escalation NO_IMPROVEMENT ''No measurable improvement for 2 consecutive attempt(s).''
       (AttemptsEvidence [] ''.quick-gate/failures.json'' ''.quick-gate/run-metadata.json'')"

definition stale_state :: repair_state where
  "stale_state =
     writeJsonFileSync ESCALATION_FILE (RepairJson stale_escalation) (state_with passing_report)"

section \<open>The gate runner\<close>

lemma lighthouseRows_throws:
  "isl (lighthouseRows P T rows acc) = (JNull \<in> set rows)"
  by (induction rows arbitrary: acc) auto

lemma parse_throws: "isl (parseLighthouseFindings P a T) = artifact_throws a"
  by (auto simp: parseLighthouseFindings_def artifact_throws_def lighthouseRows_throws
      split: jfile.splits option.splits)

lemma resolve_lighthouse: "resolveGateCommand ''lighthouse'' scripts cc \<noteq> None"
  by (cases "map_of cc ''lighthouse''") (auto simp: resolveGateCommand_def)

lemma packageScripts_throws: "isl (packageScripts pj) = manifest_throws pj"
  by (auto simp: packageScripts_def manifest_throws_def split: jfile.splits)

lemma gateLoop_skip:
  "name \<noteq> ''lighthouse'' \<or> \<not> enabled \<Longrightarrow>
   \<exists>acc'. gateLoop P env dir cfg cf scripts ((name, enabled) # plan) acc
          = gateLoop P env dir cfg cf scripts plan acc'"
  by (cases "resolveGateCommand name scripts (cfg_commands cfg)") (auto simp: Let_def)

lemma gateLoop_lighthouse:
  "isl (gateLoop P env dir cfg cf scripts [(''lighthouse'', True)] acc) =
   (exit_code (runCommand (spawnSync env ''lighthouse'')
            (the (resolveGateCommand ''lighthouse'' scripts (cfg_commands cfg))) dir) \<noteq> 0
      \<and> artifact_throws (assertion_results env))"
  using resolve_lighthouse [of scripts "cfg_commands cfg"]
    parse_throws [of P "assertion_results env" "cfg_thresholds cfg"]
  by (cases "resolveGateCommand ''lighthouse'' scripts (cfg_commands cfg)";
      cases "parseLighthouseFindings P (assertion_results env) (cfg_thresholds cfg)")
     (auto simp: Let_def)

lemma gateLoop_throws:
  "isl (gateLoop P env dir cfg cf scripts (gatePlan mode) acc) =
     (exit_code (runCommand (spawnSync env ''lighthouse'')
            (the (resolveGateCommand ''lighthouse'' scripts (cfg_commands cfg))) dir) \<noteq> 0
      \<and> artifact_throws (assertion_results env))"
proof -
  obtain a1 where 1: "gateLoop P env dir cfg cf scripts (gatePlan mode) acc
      = gateLoop P env dir cfg cf scripts
          [(''typecheck'', True), (''build'', mode = ''full''), (''lighthouse'', True)] a1"
    using gateLoop_skip [of "''lint''" True P env dir cfg cf scripts _ acc]
    unfolding gatePlan_def by (auto simp del: gateLoop.simps)
  obtain a2 where 2: "gateLoop P env dir cfg cf scripts
          [(''typecheck'', True), (''build'', mode = ''full''), (''lighthouse'', True)] a1
      = gateLoop P env dir cfg cf scripts [(''build'', mode = ''full''), (''lighthouse'', True)] a2"
    using gateLoop_skip [of "''typecheck''" True P env dir cfg cf scripts _ a1]
    by (auto simp del: gateLoop.simps)
  obtain a3 where 3: "gateLoop P env dir cfg cf scripts
          [(''build'', mode = ''full''), (''lighthouse'', True)] a2
      = gateLoop P env dir cfg cf scripts [(''lighthouse'', True)] a3"
    using gateLoop_skip [of "''build''" "mode = ''full''" P env dir cfg cf scripts _ a2]
    by (auto simp del: gateLoop.simps)
  show ?thesis unfolding 1 2 3 by (rule gateLoop_lighthouse)
qed

lemma gates_throw_iff:
  "isl (runDeterministicGates P env mode dir cfg changedFiles) =
     (manifest_throws (package_json env)
      \<or> (exit_code (lighthouse_trace env dir cfg) \<noteq> 0 \<and> artifact_throws (assertion_results env)))"
proof (cases "packageScripts (package_json env)")
  case (Inl e)
  then have "manifest_throws (package_json env)"
    using packageScripts_throws [of "package_json env"] by simp
  with Inl show ?thesis by (simp add: runDeterministicGates_def)
next
  case (Inr scripts)
  then have "\<not> manifest_throws (package_json env)"
    using packageScripts_throws [of "package_json env"] by simp
  with Inr show ?thesis
    by (simp add: runDeterministicGates_def gateLoop_throws lighthouse_trace_def)
qed

text \<open>
  Claim C5, as the code has it. \<^verbatim>\<open>runDeterministicGates\<close> throws exactly when the
  manifest cannot be read (no \<^verbatim>\<open>package.json\<close>, text that is not JSON, or the JSON
  \<^verbatim>\<open>null\<close>), or when the Lighthouse command exits non-zero and the assertion-results
  artifact exists but is not JSON, cannot be iterated, or has a \<^verbatim>\<open>null\<close> row. A
  non-zero exit of a gate command alone never makes it throw; for every other input it
  returns its \<^verbatim>\<open>{gates, findings, traces}\<close>.
\<close>

theorem gate_runner_throws_exactly_when:
  "isl (runDeterministicGates P env mode dir cfg changedFiles) =
     (manifest_throws (package_json env)
      \<or> (exit_code (lighthouse_trace env dir cfg) \<noteq> 0 \<and> artifact_throws (assertion_results env)))"
  by (rule gates_throw_iff)

text \<open>
  The claim as stated fails: with a \<^verbatim>\<open>package.json\<close> that is present but does not
  parse, the gate runner throws the \<^verbatim>\<open>SyntaxError\<close> of \<^verbatim>\<open>JSON.parse\<close>.
\<close>

theorem gate_runner_throws_on_unparsable_manifest:
  "package_json broken_manifest \<noteq> Missing
   \<and> runDeterministicGates sample_platform broken_manifest ''canary'' ''/repo'' default_config
        [''src/a.ts''] = Inl SyntaxError"
  by (simp add: broken_manifest_def lint_fails_def runDeterministicGates_def packageScripts_def)

section \<open>The run command\<close>

lemma payload_status:
  "(fr_status (failuresPayload env mode changedFiles dir g) = ''pass'')
     = (fr_findings (failuresPayload env mode changedFiles dir g) = [])"
  by (simp add: failuresPayload_def Let_def)

lemma payload_findings: "fr_findings (failuresPayload env mode changedFiles dir g) = findings g"
  by (simp add: failuresPayload_def Let_def)

lemma failures_not_metadata: "FAILURES_FILE \<noteq> RUN_METADATA_FILE"
  by (simp add: FAILURES_FILE_def RUN_METADATA_FILE_def)

lemma executeRun_Inr:
  assumes "executeRun P env mode changedFiles dir st = Inr (ret, st')"
  obtains cfg g where
    "loadConfig (path_join P dir ''quick-gate.config.json'') (re_config_file env) = Inr cfg"
    "runDeterministicGates P (re_gate_env env) mode dir cfg changedFiles = Inr g"
    "re_failures_schema env (failuresPayload env mode changedFiles dir g)"
    "rr_status ret = fr_status (failuresPayload env mode changedFiles dir g)"
    "st' = st(FAILURES_FILE \<mapsto> FailuresJson (failuresPayload env mode changedFiles dir g),
             RUN_METADATA_FILE \<mapsto> RunMetadataJson
               \<lparr> rm_run_id = re_run_id env, rm_mode = mode, rm_started_at = re_started_at env,
                 rm_completed_at = re_completed_at env, rm_duration_ms = re_duration_ms env,
                 rm_config_source = cfg_source cfg, rm_command_traces = traces g \<rparr>)"
  using assms unfolding executeRun_def Let_def
  by (fastforce split: sum.splits if_splits)

lemma executeRun_written:
  assumes "executeRun P env mode changedFiles dir st = Inr (ret, st')"
  obtains g where
    "written_failures st' = Some (failuresPayload env mode changedFiles dir g)"
    "rr_status ret = fr_status (failuresPayload env mode changedFiles dir g)"
proof -
  from assms obtain cfg g where
    "loadConfig (path_join P dir ''quick-gate.config.json'') (re_config_file env) = Inr cfg"
    "runDeterministicGates P (re_gate_env env) mode dir cfg changedFiles = Inr g"
    "re_failures_schema env (failuresPayload env mode changedFiles dir g)"
    and s: "rr_status ret = fr_status (failuresPayload env mode changedFiles dir g)"
    and w: "st' = st(FAILURES_FILE \<mapsto> FailuresJson (failuresPayload env mode changedFiles dir g),
             RUN_METADATA_FILE \<mapsto> RunMetadataJson
               \<lparr> rm_run_id = re_run_id env, rm_mode = mode, rm_started_at = re_started_at env,
                 rm_completed_at = re_completed_at env, rm_duration_ms = re_duration_ms env,
                 rm_config_source = cfg_source cfg, rm_command_traces = traces g \<rparr>)"
    by (rule executeRun_Inr)
  from w failures_not_metadata
  have "written_failures st' = Some (failuresPayload env mode changedFiles dir g)"
    by (simp add: written_failures_def)
  with s that show thesis by blast
qed

lemma executeRun_returns:
  assumes "re_config_file env = Missing"
    and "\<not> manifest_throws (package_json (re_gate_env env))"
    and "\<not> artifact_throws (assertion_results (re_gate_env env))"
    and "\<And>r. re_failures_schema env r"
  shows "\<not> isl (executeRun P env mode changedFiles dir st)"
proof -
  have c: "loadConfig (path_join P dir ''quick-gate.config.json'') (re_config_file env)
             = Inr default_config"
    using assms(1) by (simp add: loadConfig_def default_config_def)
  have "\<not> isl (runDeterministicGates P (re_gate_env env) mode dir default_config changedFiles)"
    using assms(2,3) by (simp add: gates_throw_iff)
  then obtain g where
    "runDeterministicGates P (re_gate_env env) mode dir default_config changedFiles = Inr g"
    by (cases "runDeterministicGates P (re_gate_env env) mode dir default_config changedFiles") auto
  with c assms(4) show ?thesis by (simp add: executeRun_def Let_def)
qed

lemma loadConfig_missing: "loadConfig p Missing = Inr default_config"
  by (simp add: loadConfig_def default_config_def)

lemma sample_run_fields:
  "re_gate_env (sample_run g) = g"
  "re_config_file (sample_run g) = Missing"
  "re_failures_schema (sample_run g) r"
  by (simp_all add: sample_run_def)

lemma lint_gates:
  "case runDeterministicGates sample_platform lint_fails ''canary'' ''/repo'' default_config cf of
     Inl e \<Rightarrow> False
   | Inr g \<Rightarrow> map f_gate (findings g) = [''lint'']"
  by (simp add: runDeterministicGates_def packageScripts_def lint_fails_def sample_manifest_def
        gatePlan_def resolveGateCommand_def default_config_def runCommand_def
        exit_with_def Let_def findingForExitCode_def)

text \<open>
  Claim C1. Whenever \<^verbatim>\<open>executeRun\<close> returns, for every mode and every changed-files
  list, the configuration was loaded and \<^verbatim>\<open>runDeterministicGates\<close> returned a gate
  result under it; \<^verbatim>\<open>.quick-gate/failures.json\<close> holds the report written, whose findings
  are the findings of that gate result and whose status is \<^verbatim>\<open>fail\<close> when there is at
  least one of them and \<^verbatim>\<open>pass\<close> when there is none. So the status is \<^verbatim>\<open>pass\<close> exactly
  when the findings list is empty, and the status returned is the status written.
\<close>

theorem run_status_pass_iff_no_findings:
  assumes "executeRun P env mode changedFiles dir st = Inr (ret, st')"
  shows "case loadConfig (path_join P dir ''quick-gate.config.json'') (re_config_file env) of
           Inl e \<Rightarrow> False
         | Inr cfg \<Rightarrow>
             (case runDeterministicGates P (re_gate_env env) mode dir cfg changedFiles of
                Inl e \<Rightarrow> False
              | Inr g \<Rightarrow>
                  (case written_failures st' of
                     None \<Rightarrow> False
                   | Some r \<Rightarrow>
                       fr_findings r = findings g
                       \<and> fr_status r = (if length (findings g) > 0 then ''fail'' else ''pass'')
                       \<and> ((fr_status r = ''pass'') = (fr_findings r = []))
                       \<and> rr_status ret = fr_status r))"
proof -
  from assms obtain cfg g where
    c: "loadConfig (path_join P dir ''quick-gate.config.json'') (re_config_file env) = Inr cfg"
    and g: "runDeterministicGates P (re_gate_env env) mode dir cfg changedFiles = Inr g"
    and "re_failures_schema env (failuresPayload env mode changedFiles dir g)"
    and s: "rr_status ret = fr_status (failuresPayload env mode changedFiles dir g)"
    and w: "st' = st(FAILURES_FILE \<mapsto> FailuresJson (failuresPayload env mode changedFiles dir g),
             RUN_METADATA_FILE \<mapsto> RunMetadataJson
               \<lparr> rm_run_id = re_run_id env, rm_mode = mode, rm_started_at = re_started_at env,
                 rm_completed_at = re_completed_at env, rm_duration_ms = re_duration_ms env,
                 rm_config_source = cfg_source cfg, rm_command_traces = traces g \<rparr>)"
    by (rule executeRun_Inr)
  from w failures_not_metadata
  have r: "written_failures st' = Some (failuresPayload env mode changedFiles dir g)"
    by (simp add: written_failures_def)
  have f: "fr_status (failuresPayload env mode changedFiles dir g)
             = (if length (findings g) > 0 then ''fail'' else ''pass'')"
    by (simp add: failuresPayload_def Let_def)
  from c g r s f payload_findings [of env mode changedFiles dir g]
    payload_status [of env mode changedFiles dir g]
  show ?thesis by simp
qed

text \<open>
  The run of a project whose lint script fails returns; the report it writes has the one
  finding of the lint gate and the status \<^verbatim>\<open>fail\<close>, which is also the status returned.
\<close>

theorem run_status_pass_iff_no_findings_witness:
  "\<not> isl (executeRun sample_platform (sample_run lint_fails) ''canary'' [''src/a.ts''] ''/repo'' Map.empty)
   \<and> (case written_failures (snd (projr
          (executeRun sample_platform (sample_run lint_fails) ''canary'' [''src/a.ts''] ''/repo'' Map.empty))) of
        None \<Rightarrow> False
      | Some r \<Rightarrow> fr_status r = ''fail'' \<and> map f_gate (fr_findings r) = [''lint'']
          \<and> rr_status (fst (projr
               (executeRun sample_platform (sample_run lint_fails) ''canary'' [''src/a.ts''] ''/repo'' Map.empty)))
             = ''fail'')"
proof -
  have r: "\<not> isl (executeRun sample_platform (sample_run lint_fails) ''canary'' [''src/a.ts''] ''/repo'' Map.empty)"
    by (rule executeRun_returns)
       (simp_all add: sample_run_def lint_fails_def manifest_throws_def artifact_throws_def
          sample_manifest_def)
  then have e: "executeRun sample_platform (sample_run lint_fails) ''canary'' [''src/a.ts''] ''/repo'' Map.empty
      = Inr (fst (projr (executeRun sample_platform (sample_run lint_fails) ''canary'' [''src/a.ts''] ''/repo'' Map.empty)),
             snd (projr (executeRun sample_platform (sample_run lint_fails) ''canary'' [''src/a.ts''] ''/repo'' Map.empty)))"
    by (cases "executeRun sample_platform (sample_run lint_fails) ''canary'' [''src/a.ts''] ''/repo'' Map.empty") auto
  from lint_gates [of "[''src/a.ts'']"] obtain g where
    g: "runDeterministicGates sample_platform lint_fails ''canary'' ''/repo'' default_config [''src/a.ts'']
          = Inr g"
    and f: "map f_gate (findings g) = [''lint'']"
    by (cases "runDeterministicGates sample_platform lint_fails ''canary'' ''/repo'' default_config [''src/a.ts'']")
       auto
  from f have n: "findings g \<noteq> []" by auto
  from run_status_pass_iff_no_findings [OF e] g f n r show ?thesis
    by (auto simp add: sample_run_fields loadConfig_missing split: option.splits)
qed

section \<open>The Lighthouse finding extractor\<close>

lemma f_route_lighthouseFinding:
  "f_route (lighthouseFinding P T row) = Some (routePath P (js_get row ''url''))"
  by (simp add: lighthouseFinding_def Let_def)

lemma lighthouseRows_map:
  "JNull \<notin> set rows \<Longrightarrow>
   lighthouseRows P T rows acc =
     Inr (acc @ map (lighthouseFinding P T) (filter (\<lambda>row. \<not> truthy (js_get row ''passed'')) rows))"
  by (induction rows arbitrary: acc) auto

lemma sample_pathname_about: "sample_pathname ''http://localhost:3000/about?utm=1'' = Some ''/about''"
  by (simp add: sample_pathname_def Let_def)

lemma sample_pathname_relative: "sample_pathname ''about?utm=1'' = None"
  by (simp add: sample_pathname_def Let_def)

text \<open>
  Claim C7, as the code has it. The finding made for a failing row has as its route:
  \<^verbatim>\<open>/\<close> when the url is absent (or otherwise falsy); the \<^verbatim>\<open>pathname\<close> of the parsed
  url, which carries no query, or \<^verbatim>\<open>/\<close> when that is empty; and the url itself, as a
  string and unchanged, when it cannot be parsed as a URL.
\<close>

theorem lighthouse_route_of_url:
  "(\<not> truthy (js_get row ''url'') \<longrightarrow> f_route (lighthouseFinding P T row) = Some ''/'')
   \<and> (truthy (js_get row ''url'') \<and> URL_pathname P (String_js P (the (js_get row ''url''))) = Some p
        \<longrightarrow> f_route (lighthouseFinding P T row) = Some (if p = [] then ''/'' else p))
   \<and> (truthy (js_get row ''url'') \<and> URL_pathname P (String_js P (the (js_get row ''url''))) = None
        \<longrightarrow> f_route (lighthouseFinding P T row) = Some (String_js P (the (js_get row ''url''))))"
  by (simp add: f_route_lighthouseFinding routePath_def)

text \<open>One row for each of the three cases.\<close>

theorem lighthouse_route_of_url_witness:
  "f_route (lighthouseFinding sample_platform default_thresholds row_no_url) = Some ''/''
   \<and> f_route (lighthouseFinding sample_platform default_thresholds row_about) = Some ''/about''
   \<and> f_route (lighthouseFinding sample_platform default_thresholds row_relative) = Some ''about?utm=1''"
  using lighthouse_route_of_url [where row = row_no_url and P = sample_platform and T = default_thresholds]
        lighthouse_route_of_url [where row = row_about and P = sample_platform and p = "''/about''"
          and T = default_thresholds]
        lighthouse_route_of_url [where row = row_relative and P = sample_platform and T = default_thresholds]
  by (simp add: row_no_url_def row_about_def row_relative_def sample_platform_def
        sample_pathname_about sample_pathname_relative)

text \<open>
  The claim as stated fails: the url \<^verbatim>\<open>about?utm=1\<close> has no scheme and does not parse,
  and the route of the finding is that string, not \<^verbatim>\<open>/\<close>.
\<close>

theorem lighthouse_route_of_unparsable_url:
  "URL_pathname sample_platform ''about?utm=1'' = None
   \<and> f_route (lighthouseFinding sample_platform default_thresholds row_relative) = Some ''about?utm=1''
   \<and> ''about?utm=1'' \<noteq> ''/''"
  by (simp add: f_route_lighthouseFinding routePath_def row_relative_def sample_platform_def
        sample_pathname_relative)

section \<open>The policy of a repair\<close>



section \<open>The edit-plan applier\<close>

lemma split_on_nonempty: "split_on sep s \<noteq> []"
  by (induction s) (auto simp: cons_hd_def split: list.splits)

lemma splitLines_crlf: "splitLines s = split_on LF (crlf_to_lf s)"
  by (induction s rule: splitLines.induct) (auto simp: LF_def CR_def cons_hd_def)

lemma join_cons_hd: "ls \<noteq> [] \<Longrightarrow> join sep (cons_hd c ls) = c # join sep ls"
  by (cases ls; cases "tl ls") (auto simp: cons_hd_def)

lemma join_split_on: "join [sep] (split_on sep s) = s"
proof (induction s)
  case Nil
  show ?case by simp
next
  case (Cons c s)
  show ?case
  proof (cases "c = sep")
    case True
    with Cons split_on_nonempty [of sep s] show ?thesis
      by (cases "split_on sep s") auto
  next
    case False
    with Cons split_on_nonempty [of sep s] show ?thesis
      by (simp add: join_cons_hd)
  qed
qed

text \<open>Splitting a text at its line ends and joining the lines by LF turns every CR LF into LF.\<close>

lemma join_splitLines: "join [LF] (splitLines s) = crlf_to_lf s"
  by (simp add: splitLines_crlf join_split_on)

lemma applyEdits_splice:
  "applyEdits P dir es touched ws = (Applied touched', ws') \<Longrightarrow>
   ws' = foldl (spliceFile P dir) ws es \<and> touched' = foldl add_unique touched (map e_file es)"
proof (induction es arbitrary: touched ws)
  case Nil
  then show ?case by simp
next
  case (Cons e es)
  from Cons.prems obtain content where c: "ws (path_join P dir (e_file e)) = Some content"
    by (cases "ws (path_join P dir (e_file e))") (auto simp: Let_def)
  from Cons.prems c have r: "\<not> (start_line e - 1 < 0 \<or> end_line e > int (length (splitLines content))
       \<or> start_line e - 1 \<ge> end_line e)"
    by (auto simp: Let_def split: if_splits)
  from Cons.prems c r have step:
    "applyEdits P dir es (add_unique touched (e_file e))
       (ws(path_join P dir (e_file e) \<mapsto> spliceLF e content)) = (Applied touched', ws')"
    by (simp add: Let_def spliceLF_def splitLines_crlf)
  have sf: "spliceFile P dir ws e = ws(path_join P dir (e_file e) \<mapsto> spliceLF e content)"
    using c by (simp add: spliceFile_def)
  have f1: "foldl (spliceFile P dir) ws (e # es)
      = foldl (spliceFile P dir) (ws(path_join P dir (e_file e) \<mapsto> spliceLF e content)) es"
    by (simp only: foldl_Cons sf)
  have f2: "foldl add_unique touched (map e_file (e # es))
      = foldl add_unique (add_unique touched (e_file e)) (map e_file es)"
    by simp
  from Cons.IH [OF step] show ?case unfolding f1 f2 .
qed

lemma apply_set_line2:
  "applyEditPlan sample_platform ''/repo'' set_line2 crlf_tree
   = (Applied [''src/app.ts''], crlf_tree(''/repo/src/app.ts'' \<mapsto> ''a'' @ [LF] @ ''B'' @ [LF] @ ''c''))"
  by (simp add: applyEditPlan_def set_line2_def crlf_tree_def crlf_text_def sample_platform_def
      Let_def LF_def CR_def cons_hd_def add_unique_def)

text \<open>
  Claim C9. When an edit plan has been applied, the working tree is the one obtained by
  rewriting, edit after edit, the file the edit names (and no other file): the text of
  the file has every CR LF turned into LF, its lines outside the edited range are kept
  as they are, the lines of the replacement, normalized alike, stand in the range, and
  the lines are joined by LF. The touched files are the files of the edits.
\<close>

theorem applied_plan_rewrites_with_LF:
  assumes "applyEditPlan P dir pl ws = (Applied touched, ws')"
  shows "ws' = foldl (spliceFile P dir) ws (edits pl)
       \<and> touched = foldl add_unique [] (map e_file (edits pl))"
  using assms applyEdits_splice unfolding applyEditPlan_def by blast

text \<open>A file with CR LF line ends whose second line is set: it is written with LF line ends.\<close>

theorem applied_plan_rewrites_with_LF_witness:
  "applyEditPlan sample_platform ''/repo'' set_line2 crlf_tree
     = (Applied [''src/app.ts''], crlf_tree(''/repo/src/app.ts'' \<mapsto> ''a'' @ [LF] @ ''B'' @ [LF] @ ''c''))
   \<and> crlf_tree(''/repo/src/app.ts'' \<mapsto> ''a'' @ [LF] @ ''B'' @ [LF] @ ''c'')
     = foldl (spliceFile sample_platform ''/repo'') crlf_tree (edits set_line2)"
  using applied_plan_rewrites_with_LF [OF apply_set_line2] apply_set_line2 by simp

text \<open>
  Claim C6, as the code has it. An edit with \<^verbatim>\<open>start_line\<close> equal to \<^verbatim>\<open>end_line\<close>, on
  a line the file has, replaces that one line by the lines of the replacement. The empty
  replacement is one empty line: the edited line becomes empty and no line is removed.
\<close>

theorem single_line_edit_replaces_line:
  assumes "ws (path_join P dir (e_file e)) = Some content"
    and "start_line e = end_line e"
    and "1 \<le> start_line e"
    and "start_line e \<le> int (length (splitLines content))"
  shows "applyEditPlan P dir \<lparr> p_summary = summ, edits = [e] \<rparr> ws =
           (Applied [e_file e],
            ws(path_join P dir (e_file e) \<mapsto>
                 join [LF] (take (nat (start_line e) - 1) (splitLines content)
                            @ splitLines (replacement e)
                            @ drop (nat (start_line e)) (splitLines content))))
       \<and> (replacement e = [] \<longrightarrow>
             take (nat (start_line e) - 1) (splitLines content) @ splitLines (replacement e)
               @ drop (nat (start_line e)) (splitLines content)
             = (splitLines content)[nat (start_line e) - 1 := []])"
proof -
  have n: "nat (start_line e - 1) = nat (start_line e) - 1" using assms(3) by simp
  have i: "nat (start_line e) - 1 < length (splitLines content)" using assms(3,4) by simp
  have s: "Suc (nat (start_line e) - 1) = nat (start_line e)" using assms(3) by simp
  show ?thesis
    using assms n upd_conv_take_nth_drop [OF i, of "[]"]
    by (simp add: applyEditPlan_def Let_def add_unique_def s)
qed

lemma fixture_lines:
  "splitLines fixture_text = [''export const v = 1;'', ''// __LINT_FAIL__'', []]"
  by (simp add: fixture_text_def LF_def CR_def cons_hd_def)

lemma blanked_lines: "splitLines blanked_text = [''export const v = 1;'', [], []]"
  by (simp add: blanked_text_def LF_def CR_def cons_hd_def)

lemma apply_remove_marker:
  "applyEditPlan sample_platform ''/repo'' remove_marker fixture_tree =
     (Applied [''src/app.ts''], fixture_tree(''/repo/src/app.ts'' \<mapsto> blanked_text))"
  by (simp add: applyEditPlan_def remove_marker_def fixture_tree_def fixture_lines
        sample_platform_def Let_def add_unique_def blanked_text_def)

text \<open>The plan of the tests on the fixture: the marker line is blanked and the file keeps three lines.\<close>

theorem single_line_edit_replaces_line_witness:
  "fixture_tree ''/repo/src/app.ts'' = Some fixture_text
   \<and> (2 :: int) \<le> int (length (splitLines fixture_text))
   \<and> applyEditPlan sample_platform ''/repo'' remove_marker fixture_tree =
       (Applied [''src/app.ts''], fixture_tree(''/repo/src/app.ts'' \<mapsto> blanked_text))"
proof -
  have c: "fixture_tree (path_join sample_platform ''/repo''
             (e_file \<lparr> e_file = ''src/app.ts'', start_line = 2, end_line = 2, replacement = [] \<rparr>))
           = Some fixture_text"
    by (simp add: fixture_tree_def sample_platform_def)
  have l: "start_line \<lparr> e_file = ''src/app.ts'', start_line = 2, end_line = 2, replacement = [] \<rparr>
           \<le> int (length (splitLines fixture_text))"
    by (simp add: fixture_lines)
  have "applyEditPlan sample_platform ''/repo''
          \<lparr> p_summary = ''remove failure marker'',
            edits = [\<lparr> e_file = ''src/app.ts'', start_line = 2, end_line = 2, replacement = [] \<rparr>] \<rparr>
          fixture_tree
        = (Applied [''src/app.ts''],
           fixture_tree(''/repo/src/app.ts'' \<mapsto>
             join [LF] ((splitLines fixture_text)[nat 2 - 1 := []])))"
    using single_line_edit_replaces_line
      [where ws = fixture_tree and P = sample_platform and dir = "''/repo''"
         and e = "\<lparr> e_file = ''src/app.ts'', start_line = 2, end_line = 2, replacement = [] \<rparr>"
         and content = fixture_text and summ = "''remove failure marker''", OF c _ _ l]
    by (simp add: sample_platform_def)
  then show ?thesis
    by (simp add: remove_marker_def fixture_lines fixture_tree_def blanked_text_def)
qed

text \<open>
  The claim as stated fails: after the edit of line 2 with the empty replacement the
  file has as many lines as before, the second of them empty.
\<close>

theorem empty_replacement_keeps_the_line:
  "replacement (hd (edits remove_marker)) = []
   \<and> applyEditPlan sample_platform ''/repo'' remove_marker fixture_tree =
       (Applied [''src/app.ts''], fixture_tree(''/repo/src/app.ts'' \<mapsto> blanked_text))
   \<and> length (splitLines fixture_text) = 3
   \<and> length (splitLines blanked_text) = 3"
proof (intro conjI)
  show "replacement (hd (edits remove_marker)) = []"
    by (simp add: remove_marker_def)
  show "applyEditPlan sample_platform ''/repo'' remove_marker fixture_tree =
       (Applied [''src/app.ts''], fixture_tree(''/repo/src/app.ts'' \<mapsto> blanked_text))"
    by (rule apply_remove_marker)
  show "length (splitLines fixture_text) = 3"
    by (simp add: fixture_lines)
  show "length (splitLines blanked_text) = 3"
    by (simp add: blanked_lines)
qed

section \<open>The patch adapter\<close>




































section \<open>The repair loop\<close>

lemma terminal_names:
  "ESCALATION_FILE \<noteq> REPAIR_REPORT_FILE"
  "ESCALATION_FILE \<noteq> FAILURES_FILE" "ESCALATION_FILE \<noteq> RUN_METADATA_FILE"
  "ESCALATION_FILE \<noteq> AGENT_BRIEF_JSON_FILE" "ESCALATION_FILE \<noteq> AGENT_BRIEF_MD_FILE"
  "REPAIR_REPORT_FILE \<noteq> FAILURES_FILE" "REPAIR_REPORT_FILE \<noteq> RUN_METADATA_FILE"
  "REPAIR_REPORT_FILE \<noteq> AGENT_BRIEF_JSON_FILE" "REPAIR_REPORT_FILE \<noteq> AGENT_BRIEF_MD_FILE"
  by (simp_all add: ESCALATION_FILE_def REPAIR_REPORT_FILE_def FAILURES_FILE_def
        RUN_METADATA_FILE_def AGENT_BRIEF_JSON_FILE_def AGENT_BRIEF_MD_FILE_def)

lemma codes_differ:
  "UNKNOWN_BLOCKER \<noteq> NO_IMPROVEMENT" "PATCH_BUDGET_EXCEEDED \<noteq> NO_IMPROVEMENT"
  by (simp_all add: UNKNOWN_BLOCKER_def NO_IMPROVEMENT_def PATCH_BUDGET_EXCEEDED_def)

lemma executeRun_keeps:
  assumes "executeRun P env mode changedFiles dir st = Inr (ret, st')"
    and "p \<noteq> FAILURES_FILE" and "p \<noteq> RUN_METADATA_FILE"
  shows "st' p = st p"
  using assms by (auto elim!: executeRun_Inr)

lemma executeSummarize_keeps:
  assumes "executeSummarize P sch input st = Inr (x, st')"
    and "p \<noteq> AGENT_BRIEF_JSON_FILE" and "p \<noteq> AGENT_BRIEF_MD_FILE"
  shows "st' p = st p"
  using assms by (auto simp: executeSummarize_def Let_def split: sum.splits if_splits)

lemma prefixStage_keeps:
  assumes "prefixStage P aenv dir failures s = Inr (acts, cur, s')"
    and "p = ESCALATION_FILE \<or> p = REPAIR_REPORT_FILE"
  shows "rs_store s' p = rs_store s p"
proof (cases "runDeterministicPreFix (ae_eslint aenv) (ae_eslint_effect aenv) dir failures (rs_workspace s)")
  case (Pair das ws1)
  show ?thesis
  proof (cases "length das > 0")
    case False
    with assms Pair show ?thesis by (auto simp: prefixStage_def)
  next
    case True
    with assms(1) Pair obtain rr st2 x st3 where
      r: "executeRun P (ae_prefix_rerun aenv) (fr_mode failures)
            (case fr_changed_files failures of Some fs \<Rightarrow> fs | None \<Rightarrow> []) dir (rs_store s) = Inr (rr, st2)"
      and m: "executeSummarize P (ae_prefix_brief_schema aenv) FAILURES_FILE st2 = Inr (x, st3)"
      and e: "rs_store s' = st3"
      by (auto simp: prefixStage_def split: sum.splits)
    from assms(2) terminal_names executeRun_keeps [OF r, of p] executeSummarize_keeps [OF m, of p] e
    show ?thesis by auto
  qed
qed

lemma runRepairActions_keeps:
  assumes "runRepairActions P aenv dir failures maxLines det s = Inr (rr, s')"
    and "p = ESCALATION_FILE \<or> p = REPAIR_REPORT_FILE"
  shows "rs_store s' p = rs_store s p"
proof -
  from assms(1) obtain acts cur s1 where
    a: "prefixStage P aenv dir failures s = Inr (acts, cur, s1)" and b: "rs_store s' = rs_store s1"
    by (auto simp: runRepairActions_def Let_def split: sum.splits if_splits)
  from prefixStage_keeps [OF a assms(2)] b show ?thesis by simp
qed

lemma rerunStage_keeps:
  assumes "rerunStage P aenv dir failures st = Inr (rerun, failures', st4)"
    and "p = ESCALATION_FILE \<or> p = REPAIR_REPORT_FILE"
  shows "st4 p = st p"
proof -
  from assms(1) obtain st3 x where
    r: "executeRun P (ae_rerun aenv) (fr_mode failures)
            (case fr_changed_files failures of Some fs \<Rightarrow> fs | None \<Rightarrow> []) dir st = Inr (rerun, st3)"
    and m: "executeSummarize P (ae_brief_schema aenv) FAILURES_FILE st3 = Inr (x, st4)"
    by (auto simp: rerunStage_def split: sum.splits)
  from assms(2) terminal_names executeRun_keeps [OF r, of p] executeSummarize_keeps [OF m, of p]
  show ?thesis by auto
qed

lemma backup_store [simp]: "rs_store (backupWorkspace h d s) = rs_store s"
  by (simp add: backupWorkspace_def)

lemma restore_store [simp]: "rs_store (restoreWorkspace h d s) = rs_store s"
  by (simp add: restoreWorkspace_def split: option.splits)

lemma write_store [simp]: "rs_store (writeJsonFileSync p a s) = (rs_store s)(p \<mapsto> a)"
  by (simp add: writeJsonFileSync_def)

lemma attemptStep_elim:
  assumes "attemptStep P env pol det dir attempt failures prev noImp attempts s = r"
  obtains
    (time_cap) msg where
      "js_gt (ae_elapsed_ms (rv_attempt env attempt)) (rp_timeCapMs pol)"
      "r = Return (Inr (Escalation UNKNOWN_BLOCKER msg NoEvidence))
             (writeJsonFileSync ESCALATION_FILE (RepairJson (Escalation UNKNOWN_BLOCKER msg NoEvidence)) s)"
  | (throws) e s1 where "r = Return (Inl e) s1"
  | (budget) msg ev rr s2 d where
      "runRepairActions P (rv_attempt env attempt) dir failures (rp_maxPatchLines pol) det
         (backupWorkspace (rv_hasRsync env) d s) = Inr (rr, s2)"
      "r = Return (Inr (Escalation PATCH_BUDGET_EXCEEDED msg ev))
             (writeJsonFileSync ESCALATION_FILE (RepairJson (Escalation PATCH_BUDGET_EXCEEDED msg ev))
                (restoreWorkspace (rv_hasRsync env) d s2))"
  | (short) rr s2 d where
      "runRepairActions P (rv_attempt env attempt) dir failures (rp_maxPatchLines pol) det
         (backupWorkspace (rv_hasRsync env) d s) = Inr (rr, s2)"
      "ra_shortCircuitPass rr"
      "r = Return (Inr (RepairReport (attempts @
             [\<lparr> a_attempt = attempt,
                a_patch_lines = computePatchLines (ae_preActionDiff (rv_attempt env attempt))
                                  (ae_postActionDiff (rv_attempt env attempt)),
                a_before_findings = prev, a_after_findings = 0,
                a_improved = True, a_worsened = False, a_status = ''pass'',
                a_actions = ra_attempted rr \<rparr>])))
             (writeJsonFileSync REPAIR_REPORT_FILE (RepairJson (RepairReport (attempts @
             [\<lparr> a_attempt = attempt,
                a_patch_lines = computePatchLines (ae_preActionDiff (rv_attempt env attempt))
                                  (ae_postActionDiff (rv_attempt env attempt)),
                a_before_findings = prev, a_after_findings = 0,
                a_improved = True, a_worsened = False, a_status = ''pass'',
                a_actions = ra_attempted rr \<rparr>]))) s2)"
  | (book) rr s2 d rerun failures' st4 where
      "runRepairActions P (rv_attempt env attempt) dir failures (rp_maxPatchLines pol) det
         (backupWorkspace (rv_hasRsync env) d s) = Inr (rr, s2)"
      "rerunStage P (rv_attempt env attempt) dir (ra_currentFailures rr) (rs_store s2)
         = Inr (rerun, failures', st4)"
      "r = bookkeeping P env pol d attempt prev noImp attempts
             (computePatchLines (ae_preActionDiff (rv_attempt env attempt))
                (ae_postActionDiff (rv_attempt env attempt)))
             (ra_attempted rr) rerun failures' (s2\<lparr> rs_store := st4 \<rparr>)"
  using assms unfolding attemptStep_def Let_def
  by (auto split: if_splits sum.splits prod.splits)


lemma bookkeeping_elim:
  assumes "bookkeeping P env pol d attempt prev noImp attempts patchLines acts rerun failures' s4 = r"
  obtains
    (pass) as where
      "r = Return (Inr (RepairReport as)) (writeJsonFileSync REPAIR_REPORT_FILE (RepairJson (RepairReport as)) s4)"
  | (no_improvement) msg p q s5 where
      "rs_store s5 = rs_store s4"
      "js_ge (int (if length (fr_findings failures') < prev then 0 else noImp + 1))
         (rp_abortOnNoImprovement pol)"
      "r = Return (Inr (Escalation NO_IMPROVEMENT msg
              (AttemptsEvidence (attempts @
                 [\<lparr> a_attempt = attempt, a_patch_lines = patchLines,
                    a_before_findings = prev, a_after_findings = length (fr_findings failures'),
                    a_improved = (length (fr_findings failures') < prev),
                    a_worsened = (length (fr_findings failures') > prev),
                    a_status = rr_status rerun, a_actions = acts \<rparr>]) p q)))
            (writeJsonFileSync ESCALATION_FILE (RepairJson (Escalation NO_IMPROVEMENT msg
              (AttemptsEvidence (attempts @
                 [\<lparr> a_attempt = attempt, a_patch_lines = patchLines,
                    a_before_findings = prev, a_after_findings = length (fr_findings failures'),
                    a_improved = (length (fr_findings failures') < prev),
                    a_worsened = (length (fr_findings failures') > prev),
                    a_status = rr_status rerun, a_actions = acts \<rparr>]) p q))) s5)"
  | (continue) s5 where
      "rs_store s5 = rs_store s4"
      "r = Continue failures' (length (fr_findings failures'))
             (if length (fr_findings failures') < prev then 0 else noImp + 1)
             (attempts @
                 [\<lparr> a_attempt = attempt, a_patch_lines = patchLines,
                    a_before_findings = prev, a_after_findings = length (fr_findings failures'),
                    a_improved = (length (fr_findings failures') < prev),
                    a_worsened = (length (fr_findings failures') > prev),
                    a_status = rr_status rerun, a_actions = acts \<rparr>]) s5"
proof (cases "rr_status rerun = ''pass''")
  case True
  let ?as = "attempts @
                 [\<lparr> a_attempt = attempt, a_patch_lines = patchLines,
                    a_before_findings = prev, a_after_findings = length (fr_findings failures'),
                    a_improved = (length (fr_findings failures') < prev),
                    a_worsened = (length (fr_findings failures') > prev),
                    a_status = rr_status rerun, a_actions = acts \<rparr>]"
  from True assms have
    "r = Return (Inr (RepairReport ?as)) (writeJsonFileSync REPAIR_REPORT_FILE (RepairJson (RepairReport ?as)) s4)"
    by (simp add: bookkeeping_def Let_def)
  then show ?thesis by (rule pass)
next
  case False
  let ?s5 = "if length (fr_findings failures') > prev
             then restoreWorkspace (rv_hasRsync env) d s4 else s4"
  let ?as = "attempts @
                 [\<lparr> a_attempt = attempt, a_patch_lines = patchLines,
                    a_before_findings = prev, a_after_findings = length (fr_findings failures'),
                    a_improved = (length (fr_findings failures') < prev),
                    a_worsened = (length (fr_findings failures') > prev),
                    a_status = rr_status rerun, a_actions = acts \<rparr>]"
  let ?n = "if length (fr_findings failures') < prev then 0 else noImp + 1"
  have st: "rs_store ?s5 = rs_store s4" by simp
  show ?thesis
  proof (cases "js_ge (int ?n) (rp_abortOnNoImprovement pol)")
    case True
    with False assms have
      "r = Return (Inr (Escalation NO_IMPROVEMENT
              (''No measurable improvement for '' @ Number_toString P (of_nat ?n)
                 @ '' consecutive attempt(s).'')
              (AttemptsEvidence ?as ''.quick-gate/failures.json'' ''.quick-gate/run-metadata.json'')))
            (writeJsonFileSync ESCALATION_FILE (RepairJson (Escalation NO_IMPROVEMENT
              (''No measurable improvement for '' @ Number_toString P (of_nat ?n)
                 @ '' consecutive attempt(s).'')
              (AttemptsEvidence ?as ''.quick-gate/failures.json'' ''.quick-gate/run-metadata.json''))) ?s5)"
      by (simp add: bookkeeping_def Let_def del: append.simps)
    with st True show ?thesis by (rule no_improvement)
  next
    case b: False
    with False assms have "r = Continue failures' (length (fr_findings failures')) ?n ?as ?s5"
      by (simp add: bookkeeping_def Let_def)
    with st show ?thesis by (rule continue)
  qed
qed

lemma last_not_improved_0: "last_not_improved 0 attempts"
  by (simp add: last_not_improved_def)

lemma last_not_improved_snoc:
  "last_not_improved n attempts \<Longrightarrow> \<not> a_improved r \<Longrightarrow> last_not_improved (Suc n) (attempts @ [r])"
  by (auto simp: last_not_improved_def Suc_diff_le)

lemma last_not_improved_mono:
  "last_not_improved n attempts \<Longrightarrow> k \<le> n \<Longrightarrow> last_not_improved k attempts"
proof -
  assume a: "last_not_improved n attempts" and k: "k \<le> n"
  then have n: "n \<le> length attempts" by (simp add: last_not_improved_def)
  have "set (drop (length attempts - k) attempts) \<subseteq> set (drop (length attempts - n) attempts)"
    using k by (intro set_drop_subset_set_drop) simp
  with a k n show ?thesis by (auto simp: last_not_improved_def list_all_iff)
qed

lemma js_ge_threshold: "js_ge (int n) b \<Longrightarrow> \<exists>q. b = Num q \<and> nat \<lceil>q\<rceil> \<le> n"
  by (cases b) (auto simp: js_ge_def ceiling_le_iff nat_le_iff)

lemma bookkeeping_invariant:
  assumes "last_not_improved noImp attempts"
  shows "last_not_improved (if length (fr_findings failures') < prev then 0 else noImp + 1)
           (attempts @
                 [\<lparr> a_attempt = attempt, a_patch_lines = patchLines,
                    a_before_findings = prev, a_after_findings = length (fr_findings failures'),
                    a_improved = (length (fr_findings failures') < prev),
                    a_worsened = (length (fr_findings failures') > prev),
                    a_status = st, a_actions = acts \<rparr>])"
  using assms last_not_improved_snoc [OF assms] by (simp add: last_not_improved_0)

lemma repairLoop_no_improvement:
  "repairLoop P env pol det dir attempt failures prev noImp attempts s
     = (Inr (Escalation NO_IMPROVEMENT msg ev), s') \<Longrightarrow>
   last_not_improved noImp attempts \<Longrightarrow>
   (case evidence_attempts ev of None \<Rightarrow> False
    | Some as \<Rightarrow>
        (case rp_abortOnNoImprovement pol of
           NaN \<Rightarrow> False
         | Num q \<Rightarrow> last_not_improved (nat \<lceil>q\<rceil>) as))"
proof (induction P env pol det dir attempt failures prev noImp attempts s rule: repairLoop.induct)
  case (1 P env pol det dir attempt failures prev noImp attempts s)
  show ?case
  proof (cases "attempt_le attempt (rp_maxAttempts pol)")
    case False
    with "1.prems"(1) codes_differ show ?thesis
      by (simp add: repairLoop.simps [of P env pol det dir attempt] Let_def)
  next
    case True
    note le = True
    obtain r where r: "attemptStep P env pol det dir attempt failures prev noImp attempts s = r"
      by simp
    from r show ?thesis
    proof (cases rule: attemptStep_elim)
      case (time_cap m)
      with "1.prems"(1) le r codes_differ show ?thesis
        by (simp add: repairLoop.simps [of P env pol det dir attempt])
    next
      case (throws e s1)
      with "1.prems"(1) le r show ?thesis
        by (simp add: repairLoop.simps [of P env pol det dir attempt])
    next
      case (budget m e rr s2 d)
      with "1.prems"(1) le r codes_differ show ?thesis
        by (simp add: repairLoop.simps [of P env pol det dir attempt])
    next
      case (short rr s2 d)
      with "1.prems"(1) le r show ?thesis
        by (simp add: repairLoop.simps [of P env pol det dir attempt])
    next
      case (book rr s2 d rerun failures' st4)
      from book(3) [symmetric] show ?thesis
      proof (cases rule: bookkeeping_elim)
        case (pass as)
        with "1.prems"(1) le r show ?thesis
          by (simp add: repairLoop.simps [of P env pol det dir attempt])
      next
        case (no_improvement m p q s5)
        from bookkeeping_invariant [OF "1.prems"(2)]
        have "last_not_improved (if length (fr_findings failures') < prev then 0 else noImp + 1)
           (attempts @
                 [\<lparr> a_attempt = attempt,
                    a_patch_lines = computePatchLines (ae_preActionDiff (rv_attempt env attempt))
                       (ae_postActionDiff (rv_attempt env attempt)),
                    a_before_findings = prev, a_after_findings = length (fr_findings failures'),
                    a_improved = (length (fr_findings failures') < prev),
                    a_worsened = (length (fr_findings failures') > prev),
                    a_status = rr_status rerun, a_actions = ra_attempted rr \<rparr>])" .
        note inv = this
        from js_ge_threshold [OF no_improvement(2)] obtain q where
          q: "rp_abortOnNoImprovement pol = Num q"
          and k: "nat \<lceil>q\<rceil> \<le> (if length (fr_findings failures') < prev then 0 else noImp + 1)"
          by blast
        from inv k have "last_not_improved (nat \<lceil>q\<rceil>)
           (attempts @
                 [\<lparr> a_attempt = attempt,
                    a_patch_lines = computePatchLines (ae_preActionDiff (rv_attempt env attempt))
                       (ae_postActionDiff (rv_attempt env attempt)),
                    a_before_findings = prev, a_after_findings = length (fr_findings failures'),
                    a_improved = (length (fr_findings failures') < prev),
                    a_worsened = (length (fr_findings failures') > prev),
                    a_status = rr_status rerun, a_actions = ra_attempted rr \<rparr>])"
          by (rule last_not_improved_mono)
        with q no_improvement(3) "1.prems"(1) le r show ?thesis
          by (auto simp add: repairLoop.simps [of P env pol det dir attempt])
      next
        case (continue s5)
        from continue(2) "1.prems"(1) le r have
          "repairLoop P env pol det dir (attempt + 1) failures' (length (fr_findings failures'))
             (if length (fr_findings failures') < prev then 0 else noImp + 1)
             (attempts @
                 [\<lparr> a_attempt = attempt,
                    a_patch_lines = computePatchLines (ae_preActionDiff (rv_attempt env attempt))
                       (ae_postActionDiff (rv_attempt env attempt)),
                    a_before_findings = prev, a_after_findings = length (fr_findings failures'),
                    a_improved = (length (fr_findings failures') < prev),
                    a_worsened = (length (fr_findings failures') > prev),
                    a_status = rr_status rerun, a_actions = ra_attempted rr \<rparr>]) s5
           = (Inr (Escalation NO_IMPROVEMENT msg ev), s')"
          by (simp add: repairLoop.simps [of P env pol det dir attempt])
        from "1.IH" [OF le _ this bookkeeping_invariant [OF "1.prems"(2)]] continue(2) r
        show ?thesis by simp
      qed
    qed
  qed
qed

text \<open>
  Claim C3. Whenever \<^verbatim>\<open>executeRepair\<close> returns an escalation with reason code
  \<^verbatim>\<open>NO_IMPROVEMENT\<close>, its evidence carries the attempts log,
  \<^verbatim>\<open>abortOnNoImprovement\<close> is a number, and the last \<^verbatim>\<open>abortOnNoImprovement\<close>
  records of that log (rounded up when it is not whole) all have \<^verbatim>\<open>improved = false\<close>:
  the counter reaches the threshold only after that many consecutive attempts without
  improvement, an improving attempt setting it back to zero.
\<close>

theorem no_improvement_after_unimproved_attempts:
  assumes "executeRepair P env input maxAttemptsArg deterministicOnly dir s
             = (Inr (Escalation NO_IMPROVEMENT msg ev), s')"
    and "loadConfig (path_join P dir ''quick-gate.config.json'') (rv_config_file env) = Inr cfg"
  shows "case evidence_attempts ev of None \<Rightarrow> False
         | Some attempts \<Rightarrow>
             (case rp_abortOnNoImprovement (repairPolicy P maxAttemptsArg cfg) of
                NaN \<Rightarrow> False
              | Num q \<Rightarrow> last_not_improved (nat \<lceil>q\<rceil>) attempts)"
proof -
  from assms obtain failures where
    "repairLoop P env (repairPolicy P maxAttemptsArg cfg) deterministicOnly dir 1 failures
       (length (fr_findings failures)) 0 [] s = (Inr (Escalation NO_IMPROVEMENT msg ev), s')"
    by (auto simp: executeRepair_def Let_def split: sum.splits)
  from repairLoop_no_improvement [OF this last_not_improved_0] show ?thesis .
qed

lemma one_terminal_file_write_report:
  "rs_store s2 ESCALATION_FILE = rs_store s ESCALATION_FILE \<Longrightarrow>
   one_terminal_file s (RepairReport as) (writeJsonFileSync REPAIR_REPORT_FILE (RepairJson (RepairReport as)) s2)"
  using terminal_names by (simp add: one_terminal_file_def)

lemma one_terminal_file_write_escalation:
  "rs_store s2 REPAIR_REPORT_FILE = rs_store s REPAIR_REPORT_FILE \<Longrightarrow>
   one_terminal_file s (Escalation c m e) (writeJsonFileSync ESCALATION_FILE (RepairJson (Escalation c m e)) s2)"
  using terminal_names by (simp add: one_terminal_file_def)

lemma one_terminal_file_from:
  "one_terminal_file s1 out s' \<Longrightarrow>
   rs_store s1 ESCALATION_FILE = rs_store s ESCALATION_FILE \<Longrightarrow>
   rs_store s1 REPAIR_REPORT_FILE = rs_store s REPAIR_REPORT_FILE \<Longrightarrow>
   one_terminal_file s out s'"
  by (simp add: one_terminal_file_def split: repair_outcome.splits)

lemma repairLoop_one_terminal_file:
  "repairLoop P env pol det dir attempt failures prev noImp attempts s = (Inr out, s') \<Longrightarrow>
   one_terminal_file s out s'"
proof (induction P env pol det dir attempt failures prev noImp attempts s rule: repairLoop.induct)
  case (1 P env pol det dir attempt failures prev noImp attempts s)
  show ?case
  proof (cases "attempt_le attempt (rp_maxAttempts pol)")
    case False
    with "1.prems" one_terminal_file_write_escalation [of s s] show ?thesis
      by (auto simp add: repairLoop.simps [of P env pol det dir attempt] Let_def)
  next
    case True
    note le = True
    obtain r where r: "attemptStep P env pol det dir attempt failures prev noImp attempts s = r"
      by simp
    from r show ?thesis
    proof (cases rule: attemptStep_elim)
      case (time_cap m)
      with "1.prems" le r one_terminal_file_write_escalation [of s s] show ?thesis
        by (auto simp add: repairLoop.simps [of P env pol det dir attempt])
    next
      case (throws e s1)
      with "1.prems" le r show ?thesis
        by (simp add: repairLoop.simps [of P env pol det dir attempt])
    next
      case (budget m e rr s2 d)
      from runRepairActions_keeps [OF budget(1), of REPAIR_REPORT_FILE]
      have "rs_store (restoreWorkspace (rv_hasRsync env) d s2) REPAIR_REPORT_FILE
              = rs_store s REPAIR_REPORT_FILE" by simp
      from one_terminal_file_write_escalation [OF this] budget(2) "1.prems" le r show ?thesis
        by (auto simp add: repairLoop.simps [of P env pol det dir attempt])
    next
      case (short rr s2 d)
      from runRepairActions_keeps [OF short(1), of ESCALATION_FILE]
      have "rs_store s2 ESCALATION_FILE = rs_store s ESCALATION_FILE" by simp
      from one_terminal_file_write_report [OF this] short(3) "1.prems" le r show ?thesis
        by (auto simp add: repairLoop.simps [of P env pol det dir attempt])
    next
      case (book rr s2 d rerun failures' st4)
      have k: "rs_store (s2\<lparr> rs_store := st4 \<rparr>) ESCALATION_FILE = rs_store s ESCALATION_FILE"
              "rs_store (s2\<lparr> rs_store := st4 \<rparr>) REPAIR_REPORT_FILE = rs_store s REPAIR_REPORT_FILE"
        using runRepairActions_keeps [OF book(1), of ESCALATION_FILE]
          runRepairActions_keeps [OF book(1), of REPAIR_REPORT_FILE]
          rerunStage_keeps [OF book(2), of ESCALATION_FILE]
          rerunStage_keeps [OF book(2), of REPAIR_REPORT_FILE]
        by simp_all
      from book(3) [symmetric] show ?thesis
      proof (cases rule: bookkeeping_elim)
        case (pass as)
        with one_terminal_file_write_report [OF k(1)] "1.prems" le r show ?thesis
          by (auto simp add: repairLoop.simps [of P env pol det dir attempt])
      next
        case (no_improvement m p q s5)
        from no_improvement(1) k have "rs_store s5 REPAIR_REPORT_FILE = rs_store s REPAIR_REPORT_FILE"
          by simp
        from one_terminal_file_write_escalation [OF this] no_improvement(3) "1.prems" le r
        show ?thesis
          by (auto simp add: repairLoop.simps [of P env pol det dir attempt])
      next
        case (continue s5)
        from continue(2) "1.prems" le r have
          "repairLoop P env pol det dir (attempt + 1) failures' (length (fr_findings failures'))
             (if length (fr_findings failures') < prev then 0 else noImp + 1)
             (attempts @
                 [\<lparr> a_attempt = attempt,
                    a_patch_lines = computePatchLines (ae_preActionDiff (rv_attempt env attempt))
                       (ae_postActionDiff (rv_attempt env attempt)),
                    a_before_findings = prev, a_after_findings = length (fr_findings failures'),
                    a_improved = (length (fr_findings failures') < prev),
                    a_worsened = (length (fr_findings failures') > prev),
                    a_status = rr_status rerun, a_actions = ra_attempted rr \<rparr>]) s5
           = (Inr out, s')"
          by (simp add: repairLoop.simps [of P env pol det dir attempt])
        from "1.IH" [OF le _ this] continue(2) r have "one_terminal_file s5 out s'" by simp
        from one_terminal_file_from [OF this] continue(1) k show ?thesis by simp
      qed
    qed
  qed
qed

text \<open>
  Claim C4. Every invocation of \<^verbatim>\<open>executeRepair\<close> that returns writes exactly one of
  \<^verbatim>\<open>repair-report.json\<close> and \<^verbatim>\<open>escalation.json\<close>, the report when it returns a
  report and the escalation when it escalates, with the value returned, and leaves the other
  file as it was before the invocation. So exactly one of the two files exists at return when
  neither existed at the start.
\<close>

theorem repair_writes_one_terminal_file:
  assumes "executeRepair P env input maxAttemptsArg deterministicOnly dir s = (Inr out, s')"
  shows "(case out of
            RepairReport attempts \<Rightarrow>
              rs_store s' REPAIR_REPORT_FILE = Some (RepairJson out)
              \<and> rs_store s' ESCALATION_FILE = rs_store s ESCALATION_FILE
          | Escalation code msg ev \<Rightarrow>
              rs_store s' ESCALATION_FILE = Some (RepairJson out)
              \<and> rs_store s' REPAIR_REPORT_FILE = rs_store s REPAIR_REPORT_FILE)
       \<and> (rs_store s REPAIR_REPORT_FILE = None \<and> rs_store s ESCALATION_FILE = None \<longrightarrow>
            (rs_store s' REPAIR_REPORT_FILE = None) \<noteq> (rs_store s' ESCALATION_FILE = None))"
proof -
  from assms obtain pol failures where
    "repairLoop P env pol deterministicOnly dir 1 failures (length (fr_findings failures)) 0 [] s
       = (Inr out, s')"
    by (auto simp: executeRepair_def Let_def split: sum.splits)
  from repairLoop_one_terminal_file [OF this] show ?thesis
    by (auto simp: one_terminal_file_def split: repair_outcome.splits)
qed

lemma same_workspace [simp]: "s\<lparr> rs_workspace := rs_workspace s \<rparr> = s"
  by simp

lemma zero_findings_actions:
  assumes "fr_findings failures = []"
  shows "runRepairActions P aenv dir failures maxLines det s
           = Inr (\<lparr> ra_attempted = [], ra_currentFailures = failures, ra_shortCircuitPass = True \<rparr>, s)"
  using assms
  by (simp add: runRepairActions_def prefixStage_def runDeterministicPreFix_def hasGateFailure_def)

lemma zero_findings_pass:
  assumes "fr_findings failures = []"
    and "attempt_le 1 (rp_maxAttempts pol)"
    and "\<not> js_gt (ae_elapsed_ms (rv_attempt env 1)) (rp_timeCapMs pol)"
    and "\<not> js_gt (computePatchLines (ae_preActionDiff (rv_attempt env 1))
                 (ae_postActionDiff (rv_attempt env 1)))
           (rp_maxPatchLines pol)"
  shows "repairLoop P env pol det dir 1 failures prev 0 [] s =
           (Inr (RepairReport
              [\<lparr> a_attempt = 1,
                 a_patch_lines = computePatchLines (ae_preActionDiff (rv_attempt env 1))
                                   (ae_postActionDiff (rv_attempt env 1)),
                 a_before_findings = prev, a_after_findings = 0,
                 a_improved = True, a_worsened = False, a_status = ''pass'', a_actions = [] \<rparr>]),
            writeJsonFileSync REPAIR_REPORT_FILE
              (RepairJson (RepairReport
                [\<lparr> a_attempt = 1,
                   a_patch_lines = computePatchLines (ae_preActionDiff (rv_attempt env 1))
                                     (ae_postActionDiff (rv_attempt env 1)),
                   a_before_findings = prev, a_after_findings = 0,
                   a_improved = True, a_worsened = False, a_status = ''pass'', a_actions = [] \<rparr>]))
              (backupWorkspace (rv_hasRsync env)
                 (''.quick-gate/backup-attempt-'' @ Number_toString P 1) s))"
  using assms
  by (simp add: repairLoop.simps [of P env pol det dir 1] attemptStep_def
        zero_findings_actions Let_def)

text \<open>
  Claim C8. When the failures report read by \<^verbatim>\<open>executeRepair\<close> has no findings, the
  policy allows a first attempt (\<^verbatim>\<open>1 <= maxAttempts\<close>), the time cap has not been reached
  at the start of that attempt (the elapsed time is not greater than \<^verbatim>\<open>timeCapMs\<close>) and
  the patch-line delta of the attempt is not greater than \<^verbatim>\<open>maxPatchLines\<close>, the invocation returns a report with the single attempt record of
  the first attempt: status \<^verbatim>\<open>pass\<close>, \<^verbatim>\<open>after_findings = 0\<close>,
  \<^verbatim>\<open>improved = true\<close>, and an empty list of actions, so neither the hint adapter nor the
  patch adapter was called, whether or not the deterministic pre-fixer acted.
\<close>

theorem zero_findings_pass_on_first_attempt:
  assumes "loadConfig (path_join P dir ''quick-gate.config.json'') (rv_config_file env) = Inr cfg"
    and "readFailures (rs_store s) input = Inr failures"
    and "fr_findings failures = []"
    and "attempt_le 1 (rp_maxAttempts (repairPolicy P maxAttemptsArg cfg))"
    and "\<not> js_gt (ae_elapsed_ms (rv_attempt env 1)) (rp_timeCapMs (repairPolicy P maxAttemptsArg cfg))"
    and "\<not> js_gt (computePatchLines (ae_preActionDiff (rv_attempt env 1))
                 (ae_postActionDiff (rv_attempt env 1)))
           (rp_maxPatchLines (repairPolicy P maxAttemptsArg cfg))"
  shows "fst (executeRepair P env input maxAttemptsArg deterministicOnly dir s) =
           Inr (RepairReport
              [\<lparr> a_attempt = 1,
                 a_patch_lines = computePatchLines (ae_preActionDiff (rv_attempt env 1))
                                   (ae_postActionDiff (rv_attempt env 1)),
                 a_before_findings = 0, a_after_findings = 0,
                 a_improved = True, a_worsened = False, a_status = ''pass'', a_actions = [] \<rparr>])"
  using assms(1,2,3) zero_findings_pass [OF assms(3,4,5,6)]
  by (simp add: executeRepair_def Let_def)

section \<open>Sample repairs\<close>

lemma sample_loadConfig:
  "loadConfig (path_join sample_platform ''/repo'' ''quick-gate.config.json'') (rv_config_file sample_repair)
     = Inr default_config"
  by (simp add: loadConfig_def default_config_def sample_repair_def)

lemma sample_policy:
  "rp_maxAttempts (repairPolicy sample_platform None default_config) = Num 3"
  "rp_maxPatchLines (repairPolicy sample_platform None default_config) = Num 150"
  "rp_abortOnNoImprovement (repairPolicy sample_platform None default_config) = Num 2"
  "rp_timeCapMs (repairPolicy sample_platform None default_config) = Num 1200000"
  by (simp_all add: repairPolicy_def default_config_def DEFAULT_POLICY_def or_js_def Number_js_def)

lemma sample_attempt_facts:
  "ae_elapsed_ms (rv_attempt sample_repair i) = 0"
  "computePatchLines (ae_preActionDiff (rv_attempt sample_repair i))
     (ae_postActionDiff (rv_attempt sample_repair i)) = 0"
  "rv_hasRsync sample_repair = True"
  by (simp_all add: sample_repair_def sample_attempt_def computePatchLines_def)

lemma read_state_with:
  "readFailures (rs_store (state_with failures)) FAILURES_FILE = Inr failures"
  by (simp add: readFailures_def state_with_def)

lemma read_stale_state:
  "readFailures (rs_store stale_state) FAILURES_FILE = Inr passing_report"
  using terminal_names by (simp add: readFailures_def state_with_def stale_state_def)

lemma passing_no_findings: "fr_findings passing_report = []"
  by (simp add: passing_report_def)

lemma zero_attempts_policy:
  "rp_maxAttempts (repairPolicy sample_platform (Some (JStr ''0'')) default_config) = Num 0"
  by (simp add: repairPolicy_def or_js_def Number_js_def sample_platform_def sample_number_def
        is_digit_def)

lemma show_zero: "Number_toString sample_platform 0 = ''0''"
  by (simp add: sample_platform_def show_int_def show_nat.simps [of 0])

text \<open>
  With \<^verbatim>\<open>--max-attempts 0\<close> the loop body is never entered: a report without findings ends
  in the escalation \<^verbatim>\<open>UNKNOWN_BLOCKER\<close>, not in a passing repair report.
\<close>

theorem zero_findings_without_an_attempt_escalates:
  "fr_findings passing_report = []
   \<and> readFailures (rs_store (state_with passing_report)) FAILURES_FILE = Inr passing_report
   \<and> fst (executeRepair sample_platform sample_repair FAILURES_FILE (Some (JStr ''0'')) False ''/repo''
            (state_with passing_report))
       = Inr (Escalation UNKNOWN_BLOCKER ''Attempts exhausted (0).''
                (LatestFailures ''.quick-gate/failures.json''))"
  by (simp add: executeRepair_def sample_loadConfig read_state_with passing_no_findings
        repairLoop.simps [of _ _ _ _ _ 1] zero_attempts_policy attempt_le_def jsnum_toString_def
        show_zero Let_def)

text \<open>The same report under the default policy passes on the first attempt.\<close>

theorem zero_findings_pass_on_first_attempt_witness:
  "fr_findings passing_report = []
   \<and> readFailures (rs_store (state_with passing_report)) FAILURES_FILE = Inr passing_report
   \<and> fst (executeRepair sample_platform sample_repair FAILURES_FILE None False ''/repo''
            (state_with passing_report))
       = Inr (RepairReport
              [\<lparr> a_attempt = 1, a_patch_lines = 0, a_before_findings = 0, a_after_findings = 0,
                 a_improved = True, a_worsened = False, a_status = ''pass'', a_actions = [] \<rparr>])"
  using zero_findings_pass_on_first_attempt [OF sample_loadConfig read_state_with passing_no_findings, of None False]
  by (simp add: sample_policy sample_attempt_facts attempt_le_def js_gt_def passing_no_findings
        read_state_with)

lemma passing_run:
  assumes "readFailures (rs_store s) FAILURES_FILE = Inr passing_report"
  shows "executeRepair sample_platform sample_repair FAILURES_FILE None False ''/repo'' s
     = (Inr (RepairReport
              [\<lparr> a_attempt = 1, a_patch_lines = 0, a_before_findings = 0, a_after_findings = 0,
                 a_improved = True, a_worsened = False, a_status = ''pass'', a_actions = [] \<rparr>]),
        writeJsonFileSync REPAIR_REPORT_FILE
          (RepairJson (RepairReport
              [\<lparr> a_attempt = 1, a_patch_lines = 0, a_before_findings = 0, a_after_findings = 0,
                 a_improved = True, a_worsened = False, a_status = ''pass'', a_actions = [] \<rparr>]))
          (backupWorkspace True (''.quick-gate/backup-attempt-'' @ Number_toString sample_platform 1) s))"
  using zero_findings_pass [OF passing_no_findings, of "repairPolicy sample_platform None default_config"
      sample_repair sample_platform False "''/repo''" 0 s] assms
  by (simp add: executeRepair_def sample_loadConfig passing_no_findings
        sample_policy sample_attempt_facts attempt_le_def js_gt_def Let_def)

lemma stale_store: "rs_store stale_state ESCALATION_FILE = Some (RepairJson stale_escalation)"
  by (simp add: stale_state_def)

lemma fresh_store:
  "rs_store (state_with failures) REPAIR_REPORT_FILE = None"
  "rs_store (state_with failures) ESCALATION_FILE = None"
  using terminal_names by (simp_all add: state_with_def)

text \<open>
  An \<^verbatim>\<open>escalation.json\<close> left by an earlier invocation stays in place when the next
  invocation passes: both files exist at return.
\<close>

theorem stale_escalation_stays_beside_report:
  "fst (executeRepair sample_platform sample_repair FAILURES_FILE None False ''/repo'' stale_state)
     = Inr (RepairReport
              [\<lparr> a_attempt = 1, a_patch_lines = 0, a_before_findings = 0, a_after_findings = 0,
                 a_improved = True, a_worsened = False, a_status = ''pass'', a_actions = [] \<rparr>])
   \<and> rs_store (snd (executeRepair sample_platform sample_repair FAILURES_FILE None False ''/repo''
         stale_state)) REPAIR_REPORT_FILE \<noteq> None
   \<and> rs_store (snd (executeRepair sample_platform sample_repair FAILURES_FILE None False ''/repo''
         stale_state)) ESCALATION_FILE = Some (RepairJson stale_escalation)"
  using terminal_names(1) by (simp add: passing_run [OF read_stale_state] stale_store)

text \<open>Starting without either file, the passing invocation leaves the report alone.\<close>

theorem repair_writes_one_terminal_file_witness:
  "rs_store (state_with passing_report) REPAIR_REPORT_FILE = None
   \<and> rs_store (state_with passing_report) ESCALATION_FILE = None
   \<and> rs_store (snd (executeRepair sample_platform sample_repair FAILURES_FILE None False ''/repo''
         (state_with passing_report))) REPAIR_REPORT_FILE
     = Some (RepairJson (RepairReport
              [\<lparr> a_attempt = 1, a_patch_lines = 0, a_before_findings = 0, a_after_findings = 0,
                 a_improved = True, a_worsened = False, a_status = ''pass'', a_actions = [] \<rparr>]))
   \<and> rs_store (snd (executeRepair sample_platform sample_repair FAILURES_FILE None False ''/repo''
         (state_with passing_report))) ESCALATION_FILE = None"
  using repair_writes_one_terminal_file [OF passing_run [OF read_state_with]]
  by (simp add: passing_run [OF read_state_with] fresh_store)

text \<open>
  A project whose type check keeps failing, repaired in deterministic-only mode under the
  default policy: two attempts without improvement, then the escalation.
\<close>

lemma typecheck_gates:
  "case runDeterministicGates sample_platform typecheck_fails ''canary'' ''/repo'' default_config cf of
     Inl e \<Rightarrow> False
   | Inr g \<Rightarrow> map f_gate (findings g) = [''typecheck'']"
  by (simp add: runDeterministicGates_def packageScripts_def typecheck_fails_def sample_manifest_def
        gatePlan_def resolveGateCommand_def default_config_def runCommand_def
        exit_with_def Let_def findingForExitCode_def)

lemma sample_attempt_fields:
  "ae_rerun sample_attempt = sample_run typecheck_fails"
  "ae_brief_schema sample_attempt b"
  "rv_attempt sample_repair i = sample_attempt"
  by (simp_all add: sample_attempt_def sample_repair_def)

lemma sample_attempt_zero:
  "ae_elapsed_ms sample_attempt = 0"
  "computePatchLines (ae_preActionDiff sample_attempt) (ae_postActionDiff sample_attempt) = 0"
  by (simp_all add: sample_attempt_def computePatchLines_def)

lemma typecheck_rerun:
  assumes "fr_mode failures = ''canary''"
  obtains rerun failures' st4 where
    "rerunStage sample_platform sample_attempt ''/repo'' failures st = Inr (rerun, failures', st4)"
    "rr_status rerun = ''fail''"
    "map f_gate (fr_findings failures') = [''typecheck'']"
    "fr_mode failures' = ''canary''"
proof -
  let ?cf = "case fr_changed_files failures of Some fs \<Rightarrow> fs | None \<Rightarrow> []"
  from typecheck_gates [of ?cf] obtain g where
    g: "runDeterministicGates sample_platform typecheck_fails ''canary'' ''/repo'' default_config ?cf = Inr g"
    and f: "map f_gate (findings g) = [''typecheck'']"
    by (cases "runDeterministicGates sample_platform typecheck_fails ''canary'' ''/repo'' default_config ?cf")
       auto
  let ?p = "failuresPayload (sample_run typecheck_fails) ''canary'' ?cf ''/repo'' g"
  have fp: "fr_findings ?p = findings g" by (rule payload_findings)
  from f have ne: "findings g \<noteq> []" by auto
  with fp payload_status [of "sample_run typecheck_fails" "''canary''" ?cf "''/repo''" g]
  have "fr_status ?p \<noteq> ''pass''" by simp
  moreover have "fr_status ?p = ''pass'' \<or> fr_status ?p = ''fail''"
    by (simp add: failuresPayload_def Let_def)
  ultimately have st: "fr_status ?p = ''fail''" by blast
  have md: "fr_mode ?p = ''canary''" by (simp add: failuresPayload_def Let_def)
  have "\<exists>rerun st4. rerunStage sample_platform sample_attempt ''/repo'' failures st = Inr (rerun, ?p, st4)
          \<and> rr_status rerun = fr_status ?p"
    using g assms failures_not_metadata
    by (simp add: rerunStage_def executeRun_def sample_run_fields sample_attempt_fields
          loadConfig_missing readFailures_def executeSummarize_def Let_def)
  with st md fp f that show thesis by metis
qed

lemma deterministic_attempt:
  assumes "fr_mode failures = ''canary''"
    and "map f_gate (fr_findings failures) = [''typecheck'']"
    and "\<not> js_gt 0 (rp_timeCapMs pol)" and "\<not> js_gt 0 (rp_maxPatchLines pol)"
  obtains rerun failures' s4 where
    "attemptStep sample_platform sample_repair pol True ''/repo'' attempt failures previousCount
         noImprovement attempts s
       = bookkeeping sample_platform sample_repair pol
           (''.quick-gate/backup-attempt-'' @ Number_toString sample_platform (of_int attempt))
           attempt previousCount noImprovement attempts 0 [DeterministicOnlyMode] rerun failures' s4"
    "rr_status rerun = ''fail''"
    "map f_gate (fr_findings failures') = [''typecheck'']"
    "fr_mode failures' = ''canary''"
proof -
  let ?dir = "''.quick-gate/backup-attempt-'' @ Number_toString sample_platform (of_int attempt)"
  let ?s1 = "backupWorkspace True ?dir s"
  from assms(2) obtain x where x: "fr_findings failures = [x]" "f_gate x = ''typecheck''"
    by (auto simp add: map_eq_Cons_conv)
  have act: "runRepairActions sample_platform sample_attempt ''/repo'' failures (rp_maxPatchLines pol) True ?s1
      = Inr (\<lparr> ra_attempted = [DeterministicOnlyMode], ra_currentFailures = failures,
               ra_shortCircuitPass = False \<rparr>, ?s1)"
    using x by (simp add: runRepairActions_def prefixStage_def runDeterministicPreFix_def
                  hasGateFailure_def)
  from assms(1) obtain rerun failures' st4 where
    r: "rerunStage sample_platform sample_attempt ''/repo'' failures (rs_store ?s1) = Inr (rerun, failures', st4)"
    and p: "rr_status rerun = ''fail''" "map f_gate (fr_findings failures') = [''typecheck'']"
      "fr_mode failures' = ''canary''"
    by (rule typecheck_rerun)
  have "attemptStep sample_platform sample_repair pol True ''/repo'' attempt failures previousCount
         noImprovement attempts s
       = bookkeeping sample_platform sample_repair pol ?dir
           attempt previousCount noImprovement attempts 0 [DeterministicOnlyMode] rerun failures'
           (?s1\<lparr> rs_store := st4 \<rparr>)"
    using assms(3,4) act r
    by (simp add: attemptStep_def sample_attempt_fields sample_attempt_zero sample_attempt_facts(3)
          Let_def)
  from this p show thesis by (rule that)
qed

lemma no_improvement_run:
  obtains msg ev s' where
    "executeRepair sample_platform sample_repair FAILURES_FILE None True ''/repo'' (state_with type_failures)
       = (Inr (Escalation NO_IMPROVEMENT msg ev), s')"
proof -
  let ?pol = "repairPolicy sample_platform None default_config"
  have t: "fr_mode type_failures = ''canary''" "map f_gate (fr_findings type_failures) = [''typecheck'']"
    by (simp_all add: type_failures_def sample_failures_def)
  have pol: "\<not> js_gt 0 (rp_timeCapMs ?pol)" "\<not> js_gt 0 (rp_maxPatchLines ?pol)"
    by (simp_all add: sample_policy js_gt_def)
  from t pol obtain rerun1 f1 s1 where
    a1: "attemptStep sample_platform sample_repair ?pol True ''/repo'' 1 type_failures 1 0 []
           (state_with type_failures)
       = bookkeeping sample_platform sample_repair ?pol
           (''.quick-gate/backup-attempt-'' @ Number_toString sample_platform (of_int 1))
           1 1 0 [] 0 [DeterministicOnlyMode] rerun1 f1 s1"
    and r1: "rr_status rerun1 = ''fail''" and g1: "map f_gate (fr_findings f1) = [''typecheck'']"
    and m1: "fr_mode f1 = ''canary''"
    by (rule deterministic_attempt)
  from g1 have l1: "length (fr_findings f1) = 1" using length_map [of f_gate "fr_findings f1"] by simp
  from a1 r1 l1 obtain as1 where
    c1: "attemptStep sample_platform sample_repair ?pol True ''/repo'' 1 type_failures 1 0 []
           (state_with type_failures) = Continue f1 1 1 as1 s1"
    by (simp add: bookkeeping_def Let_def sample_policy js_ge_def)
  from m1 g1 pol obtain rerun2 f2 s2 where
    a2: "attemptStep sample_platform sample_repair ?pol True ''/repo'' 2 f1 1 1 as1 s1
       = bookkeeping sample_platform sample_repair ?pol
           (''.quick-gate/backup-attempt-'' @ Number_toString sample_platform (of_int 2))
           2 1 1 as1 0 [DeterministicOnlyMode] rerun2 f2 s2"
    and r2: "rr_status rerun2 = ''fail''" and g2: "map f_gate (fr_findings f2) = [''typecheck'']"
    by (rule deterministic_attempt)
  from g2 have l2: "length (fr_findings f2) = 1" using length_map [of f_gate "fr_findings f2"] by simp
  from a2 r2 l2 obtain msg ev s' where
    c2: "attemptStep sample_platform sample_repair ?pol True ''/repo'' 2 f1 1 1 as1 s1
           = Return (Inr (Escalation NO_IMPROVEMENT msg ev)) s'"
    by (simp add: bookkeeping_def Let_def sample_policy js_ge_def)
  have "executeRepair sample_platform sample_repair FAILURES_FILE None True ''/repo'' (state_with type_failures)
       = (Inr (Escalation NO_IMPROVEMENT msg ev), s')"
    using c1 c2 t
    by (simp add: executeRepair_def sample_loadConfig read_state_with Let_def
          repairLoop.simps [of _ _ _ _ _ 1] repairLoop.simps [of _ _ _ _ _ 2] sample_policy
          attempt_le_def type_failures_def sample_failures_def)
  then show thesis by (rule that)
qed

text \<open>The escalation of that invocation carries an attempts log whose last two records did not improve.\<close>

theorem no_improvement_after_unimproved_attempts_witness:
  "case fst (executeRepair sample_platform sample_repair FAILURES_FILE None True ''/repo''
               (state_with type_failures)) of
     Inr (Escalation code msg ev) \<Rightarrow>
       code = NO_IMPROVEMENT
       \<and> (case evidence_attempts ev of None \<Rightarrow> False | Some attempts \<Rightarrow> last_not_improved 2 attempts)
   | _ \<Rightarrow> False"
proof -
  obtain msg ev s' where
    r: "executeRepair sample_platform sample_repair FAILURES_FILE None True ''/repo'' (state_with type_failures)
       = (Inr (Escalation NO_IMPROVEMENT msg ev), s')"
    by (rule no_improvement_run)
  from no_improvement_after_unimproved_attempts [OF r sample_loadConfig] r show ?thesis
    by (auto simp add: sample_policy split: option.splits jsnum.splits)
qed

end
